theory Spec2Isabelle
  imports
    Complex_Main
    "HOL-Library.Sublist"
    "HOL-Library.Char_ord"
    "HOL-Library.List_Lexorder"
    "HOL-Library.Product_Lexorder"
    "HOL-Library.Log_Nat"
begin

section \<open>Values of the data frame\<close>

text \<open>
  The dashboard of \<^verbatim>\<open>src/main.py\<close> keeps its records in a pandas data frame. A frame
  is modelled as the list of its rows, in row order. Hours and amounts are float64 columns.
  A finite float64 is the rational it denotes; sums round after every addition
  (\<^verbatim>\<open>fl64\<close> below), quotients are kept exact, and the three non-finite results a
  float64 division can produce are kept apart, because pandas returns them instead of
  raising.
\<close>

datatype fval = Num rat | PosInf | NegInf | NaN

subsection \<open>Rounding to float64\<close>

text \<open>The binary exponent of a positive rational: the \<^verbatim>\<open>e\<close> with
  \<^verbatim>\<open>2^e \<le> x < 2^(e+1)\<close>.\<close>

definition expo :: "rat \<Rightarrow> int" where
  "expo x =
     (case quotient_of x of (p, q) \<Rightarrow>
        let e = bitlen p - bitlen q in if 2 powi e \<le> x then e else e - 1)"

text \<open>The nearest integer, ties to the even one.\<close>

definition rint :: "rat \<Rightarrow> int" where
  "rint x =
     (let f = \<lfloor>x\<rfloor>; d = x - of_int f
      in if d < 1 / 2 then f else if 1 / 2 < d then f + 1
         else if even f then f else f + 1)"

text \<open>Round to the nearest float64, ties to the even significand (53 bits). Overflow
  to infinity and subnormal numbers are outside the model.\<close>

definition fl64 :: "rat \<Rightarrow> rat" where
  "fl64 x =
     (if x = 0 then 0
      else let u = 2 powi (expo \<bar>x\<bar> - 52) in of_int (rint (x / u)) * u)"

text \<open>Element-wise \<^verbatim>\<open>a / b\<close> of two float64 columns: never raises; a zero divisor
  gives an infinity, or NaN for \<^verbatim>\<open>0 / 0\<close>.\<close>

definition pd_div :: "rat \<Rightarrow> rat \<Rightarrow> fval" where
  "pd_div a b =
     (if b = 0 then (if a = 0 then NaN else if 0 < a then PosInf else NegInf)
      else Num (a / b))"

text \<open>Element-wise \<^verbatim>\<open>v * c\<close> for a finite constant \<^verbatim>\<open>c\<close>.\<close>

definition pd_mul :: "fval \<Rightarrow> rat \<Rightarrow> fval" where
  "pd_mul v c =
     (case v of
        Num x \<Rightarrow> Num (x * c)
      | PosInf \<Rightarrow> (if 0 < c then PosInf else if c < 0 then NegInf else NaN)
      | NegInf \<Rightarrow> (if 0 < c then NegInf else if c < 0 then PosInf else NaN)
      | NaN \<Rightarrow> NaN)"

text \<open>\<^verbatim>\<open>.fillna(d)\<close> on a numeric column replaces NaN only.\<close>

definition fillna_num :: "rat \<Rightarrow> fval \<Rightarrow> fval" where
  "fillna_num d v = (case v of NaN \<Rightarrow> Num d | _ \<Rightarrow> v)"

text \<open>\<^verbatim>\<open>.round(2)\<close>: scale by 100, round to the nearest integer with ties to even,
  scale back; non-finite values are left as they are.\<close>

definition round2 :: "rat \<Rightarrow> rat" where
  "round2 x = of_int (rint (x * 100)) / 100"

definition pd_round2 :: "fval \<Rightarrow> fval" where
  "pd_round2 v = (case v of Num x \<Rightarrow> Num (round2 x) | _ \<Rightarrow> v)"

text \<open>\<^verbatim>\<open>.fillna(d)\<close> on a text column: None is the missing value (NaN).\<close>

definition fillna :: "string \<Rightarrow> string option \<Rightarrow> string" where
  "fillna d v = (case v of None \<Rightarrow> d | Some s \<Rightarrow> s)"

text \<open>\<^verbatim>\<open>column.isin(values)\<close>: a missing value is in no list of names.\<close>

definition isin :: "string option \<Rightarrow> string list \<Rightarrow> bool" where
  "isin v vs = (case v of None \<Rightarrow> False | Some s \<Rightarrow> s \<in> set vs)"

subsection \<open>Dates\<close>

record timestamp =
  ts_year :: int
  ts_month :: nat
  ts_day :: nat
  ts_seconds :: nat

type_synonym date = "int \<times> nat \<times> nat"

text \<open>\<^verbatim>\<open>.dt.date\<close> drops the time of day.\<close>

definition dt_date :: "timestamp \<Rightarrow> date" where
  "dt_date t = (ts_year t, ts_month t, ts_day t)"

definition date_le :: "date \<Rightarrow> date \<Rightarrow> bool" where
  "date_le a b =
     (case a of (y1, m1, d1) \<Rightarrow> case b of (y2, m2, d2) \<Rightarrow>
        y1 < y2 \<or> (y1 = y2 \<and> (m1 < m2 \<or> (m1 = m2 \<and> d1 \<le> d2))))"

text \<open>\<^verbatim>\<open>.dt.strftime('%B')\<close> and \<^verbatim>\<open>.dt.quarter\<close>.\<close>

definition month_names :: "string list" where
  "month_names =
     [''January'', ''February'', ''March'', ''April'', ''May'', ''June'', ''July'',
      ''August'', ''September'', ''October'', ''November'', ''December'']"

definition strftime_B :: "timestamp \<Rightarrow> string" where
  "strftime_B t = month_names ! (ts_month t - 1)"

definition dt_quarter :: "timestamp \<Rightarrow> nat" where
  "dt_quarter t = (ts_month t - 1) div 3 + 1"

section \<open>Loading and enrichment: \<^verbatim>\<open>load_and_process_data\<close>\<close>

text \<open>
  A row of \<^verbatim>\<open>Full.csv\<close>. Text cells are given as written in the file (None: the field
  is missing from the line); dates and numbers are given as parsed. The attorney name is
  taken as present. Only the columns read by the code below are kept.
\<close>

record csv_row =
  csv_Activity_date :: timestamp
  csv_User_full_name :: string
  csv_Originating_attorney :: "string option"
  csv_Practice_area :: "string option"
  csv_Matter_location :: "string option"
  csv_Matter_status :: "string option"
  csv_Matter_stage :: "string option"
  csv_Billable_matter :: "string option"
  csv_Matter_description :: "string option"
  csv_Billable_hours :: rat
  csv_Non_billable_hours :: rat
  csv_Billed_hours :: rat
  csv_Unbilled_hours :: rat
  csv_Tracked_hours :: rat
  csv_Billable_hours_amount :: rat
  csv_Billed_hours_amount :: rat

text \<open>
  \<^verbatim>\<open>pd.read_csv\<close> is called with its default missing-value handling: a cell that is
  empty, or spells one of pandas' default NA markers, is read as NaN.
\<close>

definition na_values :: "string list" where
  "na_values =
     ['''', ''#N/A'', ''#N/A N/A'', ''#NA'', ''-1.#IND'', ''-1.#QNAN'', ''-NaN'', ''-nan'',
      ''1.#IND'', ''1.#QNAN'', ''<NA>'', ''N/A'', ''NA'', ''NULL'', ''NaN'', ''None'',
      ''n/a'', ''nan'', ''null'']"

definition read_csv_cell :: "string option \<Rightarrow> string option" where
  "read_csv_cell c =
     (case c of None \<Rightarrow> None
      | Some s \<Rightarrow> (if s \<in> set na_values then None else Some s))"

text \<open>A row of the data frame after \<^verbatim>\<open>load_and_process_data\<close>.\<close>

record row =
  Activity_date :: timestamp
  User_full_name :: string
  Originating_attorney :: "string option"
  Practice_area :: string
  Matter_location :: string
  Matter_status :: "string option"
  Matter_stage :: "string option"
  Billable_matter :: "string option"
  Matter_description :: string
  Billable_hours :: rat
  Non_billable_hours :: rat
  Billed_hours :: rat
  Unbilled_hours :: rat
  Tracked_hours :: rat
  Billable_hours_amount :: rat
  Billed_hours_amount :: rat
  year :: int
  month :: nat
  month_name :: string
  quarter :: nat
  Total_hours :: rat
  Utilization_rate :: fval

definition load_and_process_row :: "csv_row \<Rightarrow> row" where
  "load_and_process_row c =
     (let total = csv_Billable_hours c + csv_Non_billable_hours c
      in \<lparr> Activity_date = csv_Activity_date c,
           User_full_name = csv_User_full_name c,
           Originating_attorney = read_csv_cell (csv_Originating_attorney c),
           Practice_area = fillna ''Unspecified'' (read_csv_cell (csv_Practice_area c)),
           Matter_location = fillna ''Unspecified'' (read_csv_cell (csv_Matter_location c)),
           Matter_status = read_csv_cell (csv_Matter_status c),
           Matter_stage = read_csv_cell (csv_Matter_stage c),
           Billable_matter = read_csv_cell (csv_Billable_matter c),
           Matter_description = fillna [] (read_csv_cell (csv_Matter_description c)),
           Billable_hours = csv_Billable_hours c,
           Non_billable_hours = csv_Non_billable_hours c,
           Billed_hours = csv_Billed_hours c,
           Unbilled_hours = csv_Unbilled_hours c,
           Tracked_hours = csv_Tracked_hours c,
           Billable_hours_amount = csv_Billable_hours_amount c,
           Billed_hours_amount = csv_Billed_hours_amount c,
           year = ts_year (csv_Activity_date c),
           month = ts_month (csv_Activity_date c),
           month_name = strftime_B (csv_Activity_date c),
           quarter = dt_quarter (csv_Activity_date c),
           Total_hours = total,
           Utilization_rate =
             fillna_num 0 (pd_mul (pd_div (csv_Billable_hours c) total) 100) \<rparr>)"

definition load_and_process_data :: "csv_row list \<Rightarrow> row list" where
  "load_and_process_data csv = map load_and_process_row csv"

section \<open>Filtering: \<^verbatim>\<open>filter_data\<close>\<close>

text \<open>The dictionary returned by \<^verbatim>\<open>create_sidebar_filters\<close>, one field per key.\<close>

record filters =
  f_year :: "int option"
  f_quarter :: "nat option"
  f_months :: "string list"
  f_date_range :: "date list"
  f_attorneys :: "string list"
  f_originating_attorneys :: "string list"
  f_min_hours :: rat
  f_practice_areas :: "string list"
  f_locations :: "string list"
  f_matter_status :: "string list"
  f_matter_stage :: "string list"
  f_billable_matter :: "string list"
  f_min_amount :: rat
  f_rate_range :: "rat list"
  f_clients :: "string list"
  f_min_client_hours :: rat

text \<open>Python truth value of an optional number: None and 0 are false.\<close>

definition truthy :: "'a::zero option \<Rightarrow> bool" where
  "truthy v = (case v of None \<Rightarrow> False | Some n \<Rightarrow> n \<noteq> 0)"

text \<open>One guarded narrowing step, \<^verbatim>\<open>if c: filtered_df = filtered_df[mask]\<close>.\<close>

definition apply_if :: "bool \<Rightarrow> ('a \<Rightarrow> bool) \<Rightarrow> 'a list \<Rightarrow> 'a list" where
  "apply_if c keep d = (if c then filter keep d else d)"

text \<open>
  The sum of one group of \<^verbatim>\<open>groupby(...).sum()\<close>: pandas adds the values of the
  group in frame order with a running compensation (Kahan summation), every operation
  rounded to float64; 0 for no value.
\<close>

fun kahan :: "rat \<Rightarrow> rat \<Rightarrow> rat list \<Rightarrow> rat" where
  "kahan sumx compensation [] = sumx"
| "kahan sumx compensation (val # vals) =
     (let y = fl64 (val - compensation);
          t = fl64 (sumx + y);
          compensation = fl64 (fl64 (t - sumx) - y)
      in kahan t compensation vals)"

definition group_sum :: "rat list \<Rightarrow> rat" where
  "group_sum vals = kahan 0 0 vals"

definition col_sum :: "('a \<Rightarrow> rat) \<Rightarrow> 'a list \<Rightarrow> rat" where
  "col_sum col d = group_sum (map col d)"

text \<open>\<^verbatim>\<open>df[col].sum()\<close> over a whole frame: the values are added one after the other,
  each addition rounded. (For long columns the library adds in blocks; the order of the
  additions plays no part below.)\<close>

definition series_sum :: "('a \<Rightarrow> rat) \<Rightarrow> 'a list \<Rightarrow> rat" where
  "series_sum col d = foldl (\<lambda>s v. fl64 (s + v)) 0 (map col d)"

text \<open>\<^verbatim>\<open>df.groupby(key)\<close>: one group per key present, keys ascending, each group
  holding its rows in frame order.\<close>

definition groupby :: "('a \<Rightarrow> 'k::linorder) \<Rightarrow> 'a list \<Rightarrow> ('k \<times> 'a list) list" where
  "groupby key d = map (\<lambda>k. (k, filter (\<lambda>r. key r = k) d)) (sort (remdups (map key d)))"

text \<open>\<^verbatim>\<open>df.groupby(key)[col].sum()\<close>.\<close>

definition groupby_sum :: "('a \<Rightarrow> 'k::linorder) \<Rightarrow> ('a \<Rightarrow> rat) \<Rightarrow> 'a list \<Rightarrow> ('k \<times> rat) list" where
  "groupby_sum key col d = map (\<lambda>(k, g). (k, col_sum col g)) (groupby key d)"

definition filter_data :: "row list \<Rightarrow> filters \<Rightarrow> row list" where
  "filter_data df f =
     (let d = df;
          \<comment> \<open>Time filters using derived columns\<close>
          d = apply_if (truthy (f_year f)) (\<lambda>r. Some (year r) = f_year f) d;
          d = apply_if (truthy (f_quarter f)) (\<lambda>r. Some (quarter r) = f_quarter f) d;
          d = apply_if (f_months f \<noteq> []) (\<lambda>r. month_name r \<in> set (f_months f)) d;
          d = apply_if (length (f_date_range f) = 2)
                (\<lambda>r. date_le (f_date_range f ! 0) (dt_date (Activity_date r)) \<and>
                     date_le (dt_date (Activity_date r)) (f_date_range f ! 1)) d;
          \<comment> \<open>Attorney filters\<close>
          d = apply_if (f_attorneys f \<noteq> []) (\<lambda>r. User_full_name r \<in> set (f_attorneys f)) d;
          d = apply_if (f_originating_attorneys f \<noteq> [])
                (\<lambda>r. isin (Originating_attorney r) (f_originating_attorneys f)) d;
          d = (if 0 < f_min_hours f then
                 (let attorney_hours = groupby_sum User_full_name Billable_hours d;
                      valid_attorneys =
                        map fst (filter (\<lambda>(k, h). f_min_hours f \<le> h) attorney_hours)
                  in filter (\<lambda>r. User_full_name r \<in> set valid_attorneys) d)
               else d);
          \<comment> \<open>Practice area filters\<close>
          d = apply_if (f_practice_areas f \<noteq> []) (\<lambda>r. Practice_area r \<in> set (f_practice_areas f)) d;
          d = apply_if (f_locations f \<noteq> []) (\<lambda>r. Matter_location r \<in> set (f_locations f)) d;
          \<comment> \<open>Matter filters\<close>
          d = apply_if (f_matter_status f \<noteq> []) (\<lambda>r. isin (Matter_status r) (f_matter_status f)) d;
          d = apply_if (f_matter_stage f \<noteq> []) (\<lambda>r. isin (Matter_stage r) (f_matter_stage f)) d;
          d = apply_if (f_billable_matter f \<noteq> [])
                (\<lambda>r. isin (Billable_matter r) (f_billable_matter f)) d;
          \<comment> \<open>Financial filters\<close>
          d = apply_if (0 < f_min_amount f) (\<lambda>r. f_min_amount f \<le> Billable_hours_amount r) d;
          d = apply_if (length (f_rate_range f) = 2)
                (\<lambda>r. f_rate_range f ! 0 \<le> Billable_hours_amount r \<and>
                     Billable_hours_amount r \<le> f_rate_range f ! 1) d;
          \<comment> \<open>Client filters\<close>
          d = apply_if (f_clients f \<noteq> []) (\<lambda>r. Matter_description r \<in> set (f_clients f)) d;
          d = (if 0 < f_min_client_hours f then
                 (let client_hours = groupby_sum Matter_description Billable_hours d;
                      valid_clients =
                        map fst (filter (\<lambda>(k, h). f_min_client_hours f \<le> h) client_hours)
                  in filter (\<lambda>r. Matter_description r \<in> set valid_clients) d)
               else d)
      in d)"

section \<open>Aggregation tables and metrics\<close>

text \<open>\<^verbatim>\<open>display_key_metrics\<close>: the two ratios of the top row, each behind its guard.\<close>

definition key_utilization_rate :: "row list \<Rightarrow> fval" where
  "key_utilization_rate df =
     (if 0 < series_sum Tracked_hours df
      then pd_mul (pd_div (series_sum Billable_hours df) (series_sum Tracked_hours df)) 100
      else Num 0)"

definition key_avg_rate :: "row list \<Rightarrow> fval" where
  "key_avg_rate df =
     (if 0 < series_sum Billable_hours df
      then pd_div (series_sum Billable_hours_amount df) (series_sum Billable_hours df)
      else Num 0)"

text \<open>\<^verbatim>\<open>create_practice_area_analysis\<close>: billable hours and amount by practice area.\<close>

definition practice_data :: "row list \<Rightarrow> (string \<times> rat \<times> rat) list" where
  "practice_data df =
     map (\<lambda>(k, g). (k, col_sum Billable_hours g, col_sum Billable_hours_amount g))
       (groupby Practice_area df)"

text \<open>\<^verbatim>\<open>create_client_practice_area_chart\<close>: billable hours by client and practice area.\<close>

definition client_practice :: "row list \<Rightarrow> ((string \<times> string) \<times> rat) list" where
  "client_practice df =
     groupby_sum (\<lambda>r. (Matter_description r, Practice_area r)) Billable_hours df"

text \<open>\<^verbatim>\<open>create_client_metrics_table\<close>: six rounded sums per client, then three ratios
  computed from the rounded sums and rounded again.\<close>

record client_metrics_row =
  cm_Billable_hours :: rat
  cm_Billed_hours :: rat
  cm_Non_billable_hours :: rat
  cm_Billable_hours_amount :: rat
  cm_Billed_hours_amount :: rat
  cm_Tracked_hours :: rat
  cm_Utilization_Rate :: fval
  cm_Average_Rate :: fval
  cm_Efficiency_Rate :: fval

definition client_metrics_of :: "row list \<Rightarrow> client_metrics_row" where
  "client_metrics_of g =
     (let billable = round2 (col_sum Billable_hours g);
          billed = round2 (col_sum Billed_hours g);
          non_billable = round2 (col_sum Non_billable_hours g);
          amount = round2 (col_sum Billable_hours_amount g);
          billed_amount = round2 (col_sum Billed_hours_amount g);
          tracked = round2 (col_sum Tracked_hours g)
      in \<lparr> cm_Billable_hours = billable,
           cm_Billed_hours = billed,
           cm_Non_billable_hours = non_billable,
           cm_Billable_hours_amount = amount,
           cm_Billed_hours_amount = billed_amount,
           cm_Tracked_hours = tracked,
           cm_Utilization_Rate = pd_round2 (pd_mul (pd_div billable tracked) 100),
           cm_Average_Rate = pd_round2 (pd_div amount billable),
           cm_Efficiency_Rate = pd_round2 (pd_mul (pd_div billed billable) 100) \<rparr>)"

definition create_client_metrics_table :: "row list \<Rightarrow> (string \<times> client_metrics_row) list" where
  "create_client_metrics_table df =
     map (\<lambda>(k, g). (k, client_metrics_of g)) (groupby Matter_description df)"

text \<open>The attorney metrics table built in \<^verbatim>\<open>main\<close>: six rounded sums per attorney and
  two ratios.\<close>

record attorney_metrics_row =
  am_Billable_hours :: rat
  am_Non_billable_hours :: rat
  am_Billed_hours :: rat
  am_Billable_hours_amount :: rat
  am_Billed_hours_amount :: rat
  am_Tracked_hours :: rat
  am_Utilization_Rate :: fval
  am_Average_Rate :: fval

definition attorney_metrics_of :: "row list \<Rightarrow> attorney_metrics_row" where
  "attorney_metrics_of g =
     (let billable = round2 (col_sum Billable_hours g);
          non_billable = round2 (col_sum Non_billable_hours g);
          billed = round2 (col_sum Billed_hours g);
          amount = round2 (col_sum Billable_hours_amount g);
          billed_amount = round2 (col_sum Billed_hours_amount g);
          tracked = round2 (col_sum Tracked_hours g)
      in \<lparr> am_Billable_hours = billable,
           am_Non_billable_hours = non_billable,
           am_Billed_hours = billed,
           am_Billable_hours_amount = amount,
           am_Billed_hours_amount = billed_amount,
           am_Tracked_hours = tracked,
           am_Utilization_Rate = pd_round2 (pd_mul (pd_div billable tracked) 100),
           am_Average_Rate = pd_round2 (pd_div amount billable) \<rparr>)"

definition attorney_metrics :: "row list \<Rightarrow> (string \<times> attorney_metrics_row) list" where
  "attorney_metrics df =
     map (\<lambda>(k, g). (k, attorney_metrics_of g)) (groupby User_full_name df)"

section \<open>The stages of the filter\<close>

text \<open>
  The guarded steps of \<^verbatim>\<open>filter_data\<close> fall into four stages, in the order of the
  code: the time and attorney selections, the attorney minimum-hours threshold, the
  practice, matter, financial and client selections, and the client minimum-hours threshold.
  The predicates below name what each stage keeps.
\<close>

definition early_independent :: "filters \<Rightarrow> row \<Rightarrow> bool" where
  "early_independent f r =
     ((if truthy (f_year f) then Some (year r) = f_year f else True) \<and>
      (if truthy (f_quarter f) then Some (quarter r) = f_quarter f else True) \<and>
      (if f_months f \<noteq> [] then month_name r \<in> set (f_months f) else True) \<and>
      (if length (f_date_range f) = 2
       then date_le (f_date_range f ! 0) (dt_date (Activity_date r)) \<and>
            date_le (dt_date (Activity_date r)) (f_date_range f ! 1)
       else True) \<and>
      (if f_attorneys f \<noteq> [] then User_full_name r \<in> set (f_attorneys f) else True) \<and>
      (if f_originating_attorneys f \<noteq> []
       then isin (Originating_attorney r) (f_originating_attorneys f) else True))"

definition late_independent :: "filters \<Rightarrow> row \<Rightarrow> bool" where
  "late_independent f r =
     ((if f_practice_areas f \<noteq> [] then Practice_area r \<in> set (f_practice_areas f) else True) \<and>
      (if f_locations f \<noteq> [] then Matter_location r \<in> set (f_locations f) else True) \<and>
      (if f_matter_status f \<noteq> [] then isin (Matter_status r) (f_matter_status f) else True) \<and>
      (if f_matter_stage f \<noteq> [] then isin (Matter_stage r) (f_matter_stage f) else True) \<and>
      (if f_billable_matter f \<noteq> []
       then isin (Billable_matter r) (f_billable_matter f) else True) \<and>
      (if 0 < f_min_amount f then f_min_amount f \<le> Billable_hours_amount r else True) \<and>
      (if length (f_rate_range f) = 2
       then f_rate_range f ! 0 \<le> Billable_hours_amount r \<and>
            Billable_hours_amount r \<le> f_rate_range f ! 1
       else True) \<and>
      (if f_clients f \<noteq> [] then Matter_description r \<in> set (f_clients f) else True))"

text \<open>Billable hours of the rows of \<^verbatim>\<open>d\<close> whose key is \<^verbatim>\<open>k\<close>.\<close>

definition group_hours :: "(row \<Rightarrow> 'k) \<Rightarrow> row list \<Rightarrow> 'k \<Rightarrow> rat" where
  "group_hours key d k = col_sum Billable_hours (filter (\<lambda>r. key r = k) d)"

text \<open>A minimum-hours threshold on the groups of \<^verbatim>\<open>d\<close>; inactive unless positive.\<close>

definition min_hours_step :: "(row \<Rightarrow> 'k) \<Rightarrow> rat \<Rightarrow> row list \<Rightarrow> row list" where
  "min_hours_step key m d =
     (if 0 < m then filter (\<lambda>r. m \<le> group_hours key d (key r)) d else d)"

section \<open>Sample data\<close>

text \<open>A line of the file with an empty practice area, no location and an empty
  description, used to exercise the theorems on enrichment.\<close>

definition csv0 :: csv_row where
  "csv0 =
     \<lparr> csv_Activity_date = \<lparr> ts_year = 2024, ts_month = 3, ts_day = 5, ts_seconds = 0 \<rparr>,
       csv_User_full_name = ''A'',
       csv_Originating_attorney = None,
       csv_Practice_area = Some [],
       csv_Matter_location = None,
       csv_Matter_status = None,
       csv_Matter_stage = None,
       csv_Billable_matter = None,
       csv_Matter_description = Some [],
       csv_Billable_hours = 3,
       csv_Non_billable_hours = 1,
       csv_Billed_hours = 2,
       csv_Unbilled_hours = 1,
       csv_Tracked_hours = 4,
       csv_Billable_hours_amount = 600,
       csv_Billed_hours_amount = 400 \<rparr>"

text \<open>A row with the given attorney, practice area, client, hours and amount, on a fixed
  day and with no optional attribute.\<close>

definition entry :: "string \<Rightarrow> string \<Rightarrow> string \<Rightarrow> rat \<Rightarrow> rat \<Rightarrow> rat \<Rightarrow> rat \<Rightarrow> rat \<Rightarrow> row" where
  "entry attorney practice client billable non_billable tracked billed amount =
     \<lparr> Activity_date = \<lparr> ts_year = 2024, ts_month = 3, ts_day = 5, ts_seconds = 0 \<rparr>,
       User_full_name = attorney,
       Originating_attorney = None,
       Practice_area = practice,
       Matter_location = ''Unspecified'',
       Matter_status = None,
       Matter_stage = None,
       Billable_matter = None,
       Matter_description = client,
       Billable_hours = billable,
       Non_billable_hours = non_billable,
       Billed_hours = billed,
       Unbilled_hours = billable - billed,
       Tracked_hours = tracked,
       Billable_hours_amount = amount,
       Billed_hours_amount = 0,
       year = 2024,
       month = 3,
       month_name = ''March'',
       quarter = 1,
       Total_hours = billable + non_billable,
       Utilization_rate = fillna_num 0 (pd_mul (pd_div billable (billable + non_billable)) 100) \<rparr>"

text \<open>The filter dictionary with every constraint inactive.\<close>

definition no_filters :: filters where
  "no_filters =
     \<lparr> f_year = None, f_quarter = None, f_months = [], f_date_range = [], f_attorneys = [],
       f_originating_attorneys = [], f_min_hours = 0, f_practice_areas = [], f_locations = [],
       f_matter_status = [], f_matter_stage = [], f_billable_matter = [], f_min_amount = 0,
       f_rate_range = [], f_clients = [], f_min_client_hours = 0 \<rparr>"

text \<open>The three records of the concrete scenario.\<close>

definition scenario :: "row list" where
  "scenario =
     [entry ''A'' ''Litigation'' [] 5 0 5 4 1000,
      entry ''A'' ''Litigation'' [] 3 0 3 3 600,
      entry ''B'' ''Corporate'' [] 10 5 15 8 2500]"

text \<open>A client with non-billable time only and a client with no time at all.\<close>

definition idle_df :: "row list" where
  "idle_df =
     [entry ''A'' ''Corporate'' ''Internal'' 0 2 2 0 0,
      entry ''A'' ''Corporate'' ''Idle'' 0 0 0 0 0]"

section \<open>The order of evaluation stated by the specification\<close>

text \<open>
  The specification describes the evaluator as: every independent predicate first, then
  the attorney threshold, then the client threshold. This is that description, written
  with the predicates and the threshold step of the code, to be compared with
  \<^verbatim>\<open>filter_data\<close>.
\<close>

definition all_independent :: "filters \<Rightarrow> row \<Rightarrow> bool" where
  "all_independent f r = (early_independent f r \<and> late_independent f r)"

definition spec_order_filter :: "row list \<Rightarrow> filters \<Rightarrow> row list" where
  "spec_order_filter df f =
     min_hours_step Matter_description (f_min_client_hours f)
       (min_hours_step User_full_name (f_min_hours f)
          (filter (all_independent f) df))"

text \<open>One attorney with six hours in each of two practice areas, a minimum of ten
  attorney hours and a selection of one practice area.\<close>

definition split_df :: "row list" where
  "split_df =
     [entry ''X'' ''Litigation'' ''c1'' 6 0 6 6 600,
      entry ''X'' ''Corporate'' ''c2'' 6 0 6 6 600]"

definition split_filters :: filters where
  "split_filters = no_filters\<lparr>f_min_hours := 10, f_practice_areas := [''Litigation'']\<rparr>"

text \<open>A selection of one practice area with a minimum of five client hours.\<close>

definition client_filters :: filters where
  "client_filters = no_filters\<lparr>f_practice_areas := [''Litigation''], f_min_client_hours := 5\<rparr>"

text \<open>Two selections without threshold: one practice area, and a minimum amount.\<close>

definition practice_only :: filters where
  "practice_only = no_filters\<lparr>f_practice_areas := [''Litigation'']\<rparr>"

definition amount_only :: filters where
  "amount_only = no_filters\<lparr>f_min_amount := 1000\<rparr>"

section \<open>Adding a constraint\<close>

text \<open>
  \<^verbatim>\<open>adds_constraint f f'\<close>: the dictionary \<^verbatim>\<open>f'\<close> is \<^verbatim>\<open>f\<close> with one more
  constraint, that is, one key that is inactive in \<^verbatim>\<open>f\<close> has been given a value. The
  tests of inactivity are the guards of \<^verbatim>\<open>filter_data\<close>.
\<close>

inductive adds_constraint :: "filters \<Rightarrow> filters \<Rightarrow> bool" where
  add_year: "\<not> truthy (f_year f) \<Longrightarrow> adds_constraint f (f\<lparr>f_year := v\<rparr>)"
| add_quarter: "\<not> truthy (f_quarter f) \<Longrightarrow> adds_constraint f (f\<lparr>f_quarter := q\<rparr>)"
| add_months: "f_months f = [] \<Longrightarrow> adds_constraint f (f\<lparr>f_months := ms\<rparr>)"
| add_date_range: "length (f_date_range f) \<noteq> 2 \<Longrightarrow> adds_constraint f (f\<lparr>f_date_range := dr\<rparr>)"
| add_attorneys: "f_attorneys f = [] \<Longrightarrow> adds_constraint f (f\<lparr>f_attorneys := ns\<rparr>)"
| add_originating_attorneys:
    "f_originating_attorneys f = [] \<Longrightarrow> adds_constraint f (f\<lparr>f_originating_attorneys := ns\<rparr>)"
| add_min_hours: "\<not> 0 < f_min_hours f \<Longrightarrow> adds_constraint f (f\<lparr>f_min_hours := h\<rparr>)"
| add_practice_areas: "f_practice_areas f = [] \<Longrightarrow> adds_constraint f (f\<lparr>f_practice_areas := ns\<rparr>)"
| add_locations: "f_locations f = [] \<Longrightarrow> adds_constraint f (f\<lparr>f_locations := ns\<rparr>)"
| add_matter_status: "f_matter_status f = [] \<Longrightarrow> adds_constraint f (f\<lparr>f_matter_status := ns\<rparr>)"
| add_matter_stage: "f_matter_stage f = [] \<Longrightarrow> adds_constraint f (f\<lparr>f_matter_stage := ns\<rparr>)"
| add_billable_matter:
    "f_billable_matter f = [] \<Longrightarrow> adds_constraint f (f\<lparr>f_billable_matter := ns\<rparr>)"
| add_min_amount: "\<not> 0 < f_min_amount f \<Longrightarrow> adds_constraint f (f\<lparr>f_min_amount := a\<rparr>)"
| add_rate_range: "length (f_rate_range f) \<noteq> 2 \<Longrightarrow> adds_constraint f (f\<lparr>f_rate_range := rr\<rparr>)"
| add_clients: "f_clients f = [] \<Longrightarrow> adds_constraint f (f\<lparr>f_clients := ns\<rparr>)"
| add_min_client_hours:
    "\<not> 0 < f_min_client_hours f \<Longrightarrow> adds_constraint f (f\<lparr>f_min_client_hours := h\<rparr>)"

text \<open>A client whose second row carries negative billable hours.\<close>

definition negative_df :: "row list" where
  "negative_df =
     [entry ''X'' ''Litigation'' ''c1'' 6 0 6 6 600,
      entry ''X'' ''Corporate'' ''c1'' (- 3) 0 0 0 0]"

text \<open>Two clients over two practice areas, hours in quarters.\<close>

definition hier_df :: "row list" where
  "hier_df =
     [entry ''A'' ''Litigation'' ''c1'' (21 / 4) 0 (21 / 4) 4 1000,
      entry ''B'' ''Litigation'' ''c2'' (5 / 2) 0 (5 / 2) 2 600,
      entry ''A'' ''Corporate'' ''c1'' 10 5 15 8 2500,
      entry ''B'' ''Litigation'' ''c1'' (7 / 4) 0 (7 / 4) 1 400]"

section \<open>Exact sums\<close>

text \<open>
  Float64 additions are exact as long as every value and every partial sum is a multiple of
  \<^verbatim>\<open>2^-k\<close> below \<^verbatim>\<open>2^(53-k)\<close> in magnitude. \<^verbatim>\<open>exact_hours k df\<close> says so of
  the billable hours of a frame: all are multiples of \<^verbatim>\<open>2^-k\<close> (whole hours for
  \<^verbatim>\<open>k = 0\<close>, quarter hours for \<^verbatim>\<open>k = 2\<close>) and their magnitudes add up to less
  than \<^verbatim>\<open>2^(53-k)\<close>. The bound on \<^verbatim>\<open>k\<close> keeps every such value a normal
  float64.
\<close>

definition on_grid :: "nat \<Rightarrow> rat \<Rightarrow> bool" where
  "on_grid k x = (of_int \<lfloor>x * 2 ^ k\<rfloor> = x * 2 ^ k)"

definition exact_hours :: "nat \<Rightarrow> row list \<Rightarrow> bool" where
  "exact_hours k df =
     (k \<le> 1022 \<and>
      list_all (\<lambda>r. on_grid k (Billable_hours r)) df \<and>
      sum_list (map (\<lambda>r. \<bar>Billable_hours r\<bar>) df) * 2 ^ k < 2 ^ 53)"

text \<open>The two dictionaries agree on the time and attorney selections.\<close>

definition same_early :: "filters \<Rightarrow> filters \<Rightarrow> bool" where
  "same_early f f' =
     (f_year f' = f_year f \<and> f_quarter f' = f_quarter f \<and> f_months f' = f_months f \<and>
      f_date_range f' = f_date_range f \<and> f_attorneys f' = f_attorneys f \<and>
      f_originating_attorneys f' = f_originating_attorneys f)"

text \<open>Hours in tenths, as read from the file: one client with 0.1 and 0.2 hours, another
  with 0.3 hours, all in one practice area.\<close>

definition tenths_df :: "row list" where
  "tenths_df =
     [entry ''A'' ''Litigation'' ''c1'' (fl64 (1 / 10)) 0 (fl64 (1 / 10)) 0 0,
      entry ''A'' ''Litigation'' ''c1'' (fl64 (1 / 5)) 0 (fl64 (1 / 5)) 0 0,
      entry ''B'' ''Litigation'' ''c2'' (fl64 (3 / 10)) 0 (fl64 (3 / 10)) 0 0]"

text \<open>One client with 0.1 and 0.3 hours in one practice area and a row without hours in
  another.\<close>

definition rounding_df :: "row list" where
  "rounding_df =
     [entry ''A'' ''Litigation'' ''c1'' (fl64 (1 / 10)) 0 (fl64 (1 / 10)) 0 0,
      entry ''A'' ''Litigation'' ''c1'' (fl64 (3 / 10)) 0 (fl64 (3 / 10)) 0 0,
      entry ''A'' ''Corporate'' ''c1'' 0 0 0 0 0]"

section \<open>Properties\<close>

subsection \<open>Rounding to float64\<close>

text \<open>A value with a significand of at most 53 bits is left unchanged by the rounding.
  The last lemma lets the evaluation of \<^verbatim>\<open>fl64\<close> return such a value at once.\<close>

lemma rint_of_int: "rint (of_int m) = m"
  by (simp add: rint_def)

lemma powi_less_imp_less:
  assumes "(2::rat) powi a < 2 powi b"
  shows "a < b"
proof (rule ccontr)
  assume "\<not> a < b"
  then have "b \<le> a" by simp
  then have "(2::rat) powi b \<le> 2 powi a"
    by (rule power_int_increasing) simp
  with assms show False by simp
qed

lemma expo_le:
  assumes "0 < x"
  shows "2 powi (expo x) \<le> x"
proof -
  obtain p q where pq: "quotient_of x = (p, q)"
    by (cases "quotient_of x")
  then have q: "0 < q" and x: "x = of_int p / of_int q"
    by (simp_all add: quotient_of_denom_pos quotient_of_div)
  with assms have p: "0 < p"
    by (simp add: zero_less_divide_iff)
  let ?e = "bitlen p - bitlen q"
  show ?thesis
  proof (cases "2 powi ?e \<le> x")
    case True
    then show ?thesis
      by (simp add: expo_def pq Let_def)
  next
    case False
    have bp: "1 \<le> bitlen p" "1 \<le> bitlen q"
      using p q by (simp_all add: bitlen_alt_def)
    have "(2::int) ^ nat (bitlen p - 1) \<le> p"
      using bitlen_bounds [OF p] by simp
    then have "(of_int ((2::int) ^ nat (bitlen p - 1)) :: rat) \<le> of_int p"
      by (simp only: of_int_le_iff)
    then have lo: "(2::rat) powi (bitlen p - 1) \<le> of_int p"
      using bp by (simp add: power_int_nonneg_exp)
    have "q < 2 ^ nat (bitlen q)"
      using bitlen_bounds [OF q] by simp
    then have "(of_int q :: rat) < of_int ((2::int) ^ nat (bitlen q))"
      by (simp only: of_int_less_iff)
    then have hi: "(of_int q :: rat) \<le> 2 powi (bitlen q)"
      using bp by (simp add: power_int_nonneg_exp)
    have "(2::rat) powi (?e - 1) = 2 powi (bitlen p - 1) / 2 powi (bitlen q)"
      using power_int_diff [of "2::rat" "bitlen p - 1" "bitlen q"] by (simp add: algebra_simps)
    also have "\<dots> \<le> of_int p / 2 powi (bitlen q)"
      using lo by (simp add: divide_right_mono)
    also have "\<dots> \<le> of_int p / of_int q"
      using hi p q by (simp add: divide_left_mono)
    finally have "(2::rat) powi (?e - 1) \<le> x"
      by (simp only: x)
    moreover have "expo x = ?e - 1"
      using False by (simp add: expo_def pq Let_def)
    ultimately show ?thesis
      by simp
  qed
qed

lemma fl64_representable:
  assumes x: "x = of_int n * 2 powi j" and n: "\<bar>n\<bar> < 2 ^ 53"
  shows "fl64 x = x"
proof (cases "x = 0")
  case True
  then show ?thesis by (simp add: fl64_def)
next
  case False
  let ?e = "expo \<bar>x\<bar>"
  have "2 powi ?e \<le> \<bar>x\<bar>"
    using False by (intro expo_le) simp
  also have "\<bar>x\<bar> = of_int \<bar>n\<bar> * 2 powi j"
    by (simp add: x abs_mult)
  also have "\<dots> < 2 ^ 53 * 2 powi j"
  proof -
    have "(of_int \<bar>n\<bar> :: rat) < of_int (2 ^ 53)"
      using n by (simp only: of_int_less_iff)
    then show ?thesis by (simp add: mult_strict_right_mono)
  qed
  also have "\<dots> = 2 powi (53 + j)"
    using power_int_add [of "2::rat" 53 j] by simp
  finally have "?e < 53 + j"
    by (rule powi_less_imp_less)
  then have d: "0 \<le> j - (?e - 52)" by simp
  define u :: rat where "u = 2 powi (?e - 52)"
  define m where "m = n * 2 ^ nat (j - (?e - 52))"
  have u: "u \<noteq> 0"
    by (simp add: u_def)
  have "(2::rat) powi j = 2 powi (j - (?e - 52)) * u"
    unfolding u_def using power_int_add [of "2::rat" "j - (?e - 52)" "?e - 52"] by simp
  also have "(2::rat) powi (j - (?e - 52)) = 2 ^ nat (j - (?e - 52))"
    using d by (simp add: power_int_nonneg_exp)
  finally have "of_int n * 2 powi j = of_int m * u"
    by (simp add: m_def)
  then have xm: "x = of_int m * u"
    by (simp only: x)
  have "fl64 x = of_int (rint (x / u)) * u"
    using False by (simp add: fl64_def Let_def u_def)
  also have "x / u = of_int m"
    using u by (simp add: xm)
  finally show ?thesis
    by (simp add: rint_of_int xm)
qed

lemma fl64_code [code]:
  "fl64 x =
     (case quotient_of x of (p, q) \<Rightarrow>
        if \<bar>p\<bar> < 2 ^ 53 \<and> q = 2 ^ nat (bitlen q - 1) then x
        else let u = 2 powi (expo \<bar>x\<bar> - 52) in of_int (rint (x / u)) * u)"
proof -
  obtain p q where pq: "quotient_of x = (p, q)"
    by (cases "quotient_of x")
  then have x: "x = of_int p / of_int q"
    by (simp add: quotient_of_div)
  show ?thesis
  proof (cases "\<bar>p\<bar> < 2 ^ 53 \<and> q = 2 ^ nat (bitlen q - 1)")
    case True
    define k where "k = nat (bitlen q - 1)"
    from True have "q = 2 ^ k"
      by (simp add: k_def)
    then have "(of_int q :: rat) = 2 ^ k"
      by simp
    then have "x = of_int p * 2 powi (- int k)"
      by (simp add: x power_int_minus divide_inverse)
    moreover have "\<bar>p\<bar> < 2 ^ 53"
      using True by simp
    ultimately have "fl64 x = x"
      by (rule fl64_representable)
    then show ?thesis
      using True by (simp add: pq)
  next
    case False
    then have "x \<noteq> 0"
      using pq by (auto simp add: bitlen_alt_def)
    then show ?thesis
      using False by (auto simp add: pq fl64_def)
  qed
qed

lemma on_grid_add:
  assumes "on_grid k x" and "on_grid k y"
  shows "on_grid k (x + y)"
proof -
  have a: "of_int \<lfloor>x * 2 ^ k\<rfloor> = x * 2 ^ k" and b: "of_int \<lfloor>y * 2 ^ k\<rfloor> = y * 2 ^ k"
    using assms by (simp_all only: on_grid_def)
  have "(x + y) * 2 ^ k = of_int (\<lfloor>x * 2 ^ k\<rfloor> + \<lfloor>y * 2 ^ k\<rfloor>)"
    by (metis a b distrib_right of_int_add)
  then show ?thesis
    unfolding on_grid_def by (simp only: floor_of_int)
qed

lemma on_grid_0: "on_grid k 0"
  by (simp add: on_grid_def)

lemma on_grid_sum_list: "\<forall>v\<in>set vs. on_grid k v \<Longrightarrow> on_grid k (sum_list vs)"
  by (induction vs) (simp_all add: on_grid_0 on_grid_add)

lemma fl64_on_grid:
  assumes "on_grid k x" and "\<bar>x\<bar> * 2 ^ k < 2 ^ 53"
  shows "fl64 x = x"
proof -
  define n where "n = \<lfloor>x * 2 ^ k\<rfloor>"
  have n: "of_int n = x * 2 ^ k"
    using assms(1) by (simp only: on_grid_def n_def)
  then have "x = of_int n * 2 powi (- int k)"
    by (simp add: power_int_minus field_simps)
  moreover have "\<bar>n\<bar> < 2 ^ 53"
  proof -
    have "(of_int \<bar>n\<bar> :: rat) = \<bar>x\<bar> * 2 ^ k"
      by (simp add: n abs_mult)
    also have "\<dots> < of_int (2 ^ 53)"
      using assms(2) by simp
    finally show ?thesis
      by (simp only: of_int_less_iff)
  qed
  ultimately show ?thesis
    by (rule fl64_representable)
qed

lemma kahan_exact:
  assumes "on_grid k s" and "\<forall>v\<in>set vs. on_grid k v"
    and "(\<bar>s\<bar> + sum_list (map abs vs)) * 2 ^ k < 2 ^ 53"
  shows "kahan s 0 vs = s + sum_list vs"
  using assms
proof (induction vs arbitrary: s)
  case Nil
  then show ?case by simp
next
  case (Cons v vs)
  have nonneg: "0 \<le> sum_list (map abs vs)"
    by (rule sum_list_nonneg) auto
  have v: "on_grid k v"
    using Cons.prems(2) by simp
  let ?B = "(\<bar>s\<bar> + sum_list (map abs (v # vs))) * 2 ^ k"
  have B: "?B < 2 ^ 53"
    by (rule Cons.prems(3))
  have "\<bar>v\<bar> * 2 ^ k \<le> ?B"
    using nonneg by (intro mult_right_mono) simp_all
  then have "\<bar>v\<bar> * 2 ^ k < 2 ^ 53"
    using B by (rule le_less_trans)
  with v have fv: "fl64 v = v"
    by (rule fl64_on_grid)
  have "\<bar>s + v\<bar> * 2 ^ k \<le> ?B"
    using nonneg by (intro mult_right_mono) simp_all
  then have bsv: "\<bar>s + v\<bar> * 2 ^ k < 2 ^ 53"
    using B by (rule le_less_trans)
  have gsv: "on_grid k (s + v)"
    using Cons.prems(1) v by (rule on_grid_add)
  have fsv: "fl64 (s + v) = s + v"
    using gsv bsv by (rule fl64_on_grid)
  have "(\<bar>s + v\<bar> + sum_list (map abs vs)) * 2 ^ k \<le> ?B"
    by (intro mult_right_mono) simp_all
  then have "(\<bar>s + v\<bar> + sum_list (map abs vs)) * 2 ^ k < 2 ^ 53"
    using B by (rule le_less_trans)
  moreover have "\<forall>v\<in>set vs. on_grid k v"
    using Cons.prems(2) by simp
  ultimately have "kahan (s + v) 0 vs = s + v + sum_list vs"
    using gsv by (intro Cons.IH)
  moreover have "fl64 0 = 0"
    by (simp add: fl64_def)
  ultimately show ?case
    by (simp add: fv fsv Let_def)
qed

lemma group_sum_exact:
  assumes "\<forall>v\<in>set vs. on_grid k v" and "sum_list (map abs vs) * 2 ^ k < 2 ^ 53"
  shows "group_sum vs = sum_list vs"
  using kahan_exact [of k 0 vs] assms by (simp add: group_sum_def on_grid_0)

subsection \<open>The filter as four stages\<close>

lemma apply_if_filter:
  "apply_if c P (filter Q d) = filter (\<lambda>r. Q r \<and> (if c then P r else True)) d"
  by (simp add: apply_if_def)

lemma groupby_sum_keys:
  "groupby_sum key col d =
     map (\<lambda>k. (k, col_sum col (filter (\<lambda>r. key r = k) d))) (sort (remdups (map key d)))"
  by (simp add: groupby_sum_def groupby_def comp_def)

lemma valid_of_keys:
  "map fst (filter (\<lambda>(k, h). m \<le> h) (map (\<lambda>k. (k, g k)) ks)) = filter (\<lambda>k. m \<le> g k) ks"
  by (induction ks) auto

lemma valid_keys:
  "set (map fst (filter (\<lambda>(k, h). m \<le> h) (groupby_sum key Billable_hours d))) =
   {k \<in> key ` set d. m \<le> group_hours key d k}"
  unfolding groupby_sum_keys valid_of_keys by (auto simp add: group_hours_def)

lemma threshold_code:
  "filter (\<lambda>r. key r \<in> set (map fst (filter (\<lambda>(k, h). m \<le> h) (groupby_sum key Billable_hours d)))) d
   = filter (\<lambda>r. m \<le> group_hours key d (key r)) d"
  unfolding valid_keys by (rule filter_cong) auto

lemma filter_data_stages:
  "filter_data df f =
     min_hours_step Matter_description (f_min_client_hours f)
       (filter (late_independent f)
          (min_hours_step User_full_name (f_min_hours f)
             (filter (early_independent f) df)))"
proof -
  have e: "filter (early_independent f) df =
      apply_if (f_originating_attorneys f \<noteq> [])
        (\<lambda>r. isin (Originating_attorney r) (f_originating_attorneys f))
        (apply_if (f_attorneys f \<noteq> []) (\<lambda>r. User_full_name r \<in> set (f_attorneys f))
          (apply_if (length (f_date_range f) = 2)
            (\<lambda>r. date_le (f_date_range f ! 0) (dt_date (Activity_date r)) \<and>
                 date_le (dt_date (Activity_date r)) (f_date_range f ! 1))
            (apply_if (f_months f \<noteq> []) (\<lambda>r. month_name r \<in> set (f_months f))
              (apply_if (truthy (f_quarter f)) (\<lambda>r. Some (quarter r) = f_quarter f)
                (apply_if (truthy (f_year f)) (\<lambda>r. Some (year r) = f_year f)
                   (filter (\<lambda>r. True) df))))))"
    unfolding apply_if_filter early_independent_def by (rule filter_cong) auto
  have l: "\<And>d. filter (late_independent f) d =
      apply_if (f_clients f \<noteq> []) (\<lambda>r. Matter_description r \<in> set (f_clients f))
        (apply_if (length (f_rate_range f) = 2)
          (\<lambda>r. f_rate_range f ! 0 \<le> Billable_hours_amount r \<and>
               Billable_hours_amount r \<le> f_rate_range f ! 1)
          (apply_if (0 < f_min_amount f) (\<lambda>r. f_min_amount f \<le> Billable_hours_amount r)
            (apply_if (f_billable_matter f \<noteq> [])
              (\<lambda>r. isin (Billable_matter r) (f_billable_matter f))
              (apply_if (f_matter_stage f \<noteq> []) (\<lambda>r. isin (Matter_stage r) (f_matter_stage f))
                (apply_if (f_matter_status f \<noteq> [])
                  (\<lambda>r. isin (Matter_status r) (f_matter_status f))
                  (apply_if (f_locations f \<noteq> []) (\<lambda>r. Matter_location r \<in> set (f_locations f))
                    (apply_if (f_practice_areas f \<noteq> [])
                      (\<lambda>r. Practice_area r \<in> set (f_practice_areas f))
                      (filter (\<lambda>r. True) d))))))))"
    unfolding apply_if_filter late_independent_def by (rule filter_cong) auto
  show ?thesis
    unfolding filter_data_def Let_def threshold_code min_hours_step_def e l
    by simp
qed

lemma min_hours_step_subseq: "subseq (min_hours_step key m d) d"
  by (simp add: min_hours_step_def)

subsection \<open>Enrichment\<close>

lemma read_csv_cell_empty: "read_csv_cell None = None" "read_csv_cell (Some []) = None"
  by (simp_all add: read_csv_cell_def na_values_def)

lemma read_csv_cell_nonempty: "read_csv_cell c \<noteq> Some []"
  by (auto simp add: read_csv_cell_def na_values_def split: option.splits)

lemma fillna_unspecified_nonempty: "fillna ''Unspecified'' (read_csv_cell c) \<noteq> []"
  using read_csv_cell_nonempty [of c] by (cases "read_csv_cell c") (simp_all add: fillna_def)

text \<open>
  \<^verbatim>\<open>fillna\<close> by itself replaces a missing value only and would keep an empty text; an
  empty cell of the file never reaches it as a text, because the reader has already turned
  it into a missing value.
\<close>

lemma fillna_keeps_text: "fillna d (Some s) = s"
  by (simp add: fillna_def)

text \<open>
  Claim C3. A line whose practice area, matter location or matter description is absent
  or empty is enriched to a row with practice area and location \<^verbatim>\<open>Unspecified\<close> and
  description empty; and no enriched row has an empty practice area or location as
  grouping key (a missing one is excluded by the type of the column).
\<close>

theorem enrichment_defaults:
  "(csv_Practice_area c = None \<or> csv_Practice_area c = Some [] \<longrightarrow>
      Practice_area (load_and_process_row c) = ''Unspecified'') \<and>
   (csv_Matter_location c = None \<or> csv_Matter_location c = Some [] \<longrightarrow>
      Matter_location (load_and_process_row c) = ''Unspecified'') \<and>
   (csv_Matter_description c = None \<or> csv_Matter_description c = Some [] \<longrightarrow>
      Matter_description (load_and_process_row c) = []) \<and>
   Practice_area (load_and_process_row c) \<noteq> [] \<and>
   Matter_location (load_and_process_row c) \<noteq> []"
  by (auto simp add: load_and_process_row_def Let_def read_csv_cell_empty fillna_def
        fillna_unspecified_nonempty [unfolded fillna_def])

theorem enrichment_defaults_witness:
  "csv_Practice_area csv0 = Some [] \<and> csv_Matter_location csv0 = None \<and>
   csv_Matter_description csv0 = Some [] \<and>
   Practice_area (load_and_process_row csv0) = ''Unspecified'' \<and>
   Matter_location (load_and_process_row csv0) = ''Unspecified'' \<and>
   Matter_description (load_and_process_row csv0) = []"
  using enrichment_defaults [of csv0] by (simp add: csv0_def)

text \<open>
  Claim C4. For a line with non-negative billable and non-billable hours, the enriched
  utilization rate is billable over total times 100 when the total is positive and 0 when
  the total is 0; it is a finite number in both cases.
\<close>

theorem enrichment_utilization:
  assumes "0 \<le> csv_Billable_hours c" and "0 \<le> csv_Non_billable_hours c"
  shows "Total_hours (load_and_process_row c) = csv_Billable_hours c + csv_Non_billable_hours c \<and>
         Utilization_rate (load_and_process_row c) =
           (if 0 < csv_Billable_hours c + csv_Non_billable_hours c
            then Num (csv_Billable_hours c / (csv_Billable_hours c + csv_Non_billable_hours c) * 100)
            else Num 0)"
proof (cases "0 < csv_Billable_hours c + csv_Non_billable_hours c")
  case True
  then show ?thesis
    by (simp add: load_and_process_row_def Let_def pd_div_def pd_mul_def fillna_num_def)
next
  case False
  with assms have "csv_Billable_hours c = 0" and "csv_Non_billable_hours c = 0"
    by linarith+
  then show ?thesis
    by (simp add: load_and_process_row_def Let_def pd_div_def pd_mul_def fillna_num_def)
qed

theorem enrichment_utilization_witness:
  "0 \<le> csv_Billable_hours csv0 \<and> 0 \<le> csv_Non_billable_hours csv0 \<and>
   Utilization_rate (load_and_process_row csv0) = Num 75 \<and>
   Utilization_rate
     (load_and_process_row (csv0\<lparr>csv_Billable_hours := 0, csv_Non_billable_hours := 0\<rparr>)) = Num 0"
  using enrichment_utilization [of csv0]
    enrichment_utilization [of "csv0\<lparr>csv_Billable_hours := 0, csv_Non_billable_hours := 0\<rparr>"]
  by (simp add: csv0_def)

subsection \<open>Shape of the filtered frame\<close>

lemma filter_data_narrows: "subseq (filter_data df f) df"
proof -
  let ?a = "filter (early_independent f) df"
  let ?b = "min_hours_step User_full_name (f_min_hours f) ?a"
  let ?c = "filter (late_independent f) ?b"
  have "subseq (min_hours_step Matter_description (f_min_client_hours f) ?c) ?c"
    by (rule min_hours_step_subseq)
  also have "subseq ?c ?b" by simp
  also have "subseq ?b ?a" by (rule min_hours_step_subseq)
  also have "subseq ?a df" by simp
  finally show ?thesis by (simp add: filter_data_stages)
qed

text \<open>
  Claim C10. The filter returns an order-preserving subsequence of its input: surviving
  rows keep their relative order and none is duplicated. (The code narrows a copy held in a
  local variable; in the model the input is a value and cannot change.)
\<close>

theorem filter_data_subseq: "subseq (filter_data df f) df"
  by (rule filter_data_narrows)

subsection \<open>The concrete scenario\<close>

lemma early_no_filters: "early_independent (no_filters\<lparr>f_min_hours := m\<rparr>) = (\<lambda>r. True)"
  by (simp add: early_independent_def no_filters_def truthy_def fun_eq_iff)

lemma late_no_filters: "late_independent (no_filters\<lparr>f_min_hours := m\<rparr>) = (\<lambda>r. True)"
  by (simp add: late_independent_def no_filters_def truthy_def fun_eq_iff)

lemma client_no_filters: "f_min_client_hours (no_filters\<lparr>f_min_hours := m\<rparr>) = 0"
  by (simp add: no_filters_def)

lemma sort_A_B: "sort [''A'', ''B''] = [''A'', ''B'']"
  by code_simp

lemma group_sum_scenario:
  "group_sum [5, 3] = 8" "group_sum [10] = 10" "group_sum [15] = 15"
  "group_sum [1000, 600] = 1600" "group_sum [2500] = 2500"
  by code_simp+

lemma round2_scenario:
  "round2 8 = 8" "round2 15 = 15" "round2 10 = 10" "round2 1600 = 1600" "round2 2500 = 2500"
  "round2 100 = 100" "round2 200 = 200" "round2 250 = 250" "round2 (200 / 3) = 6667 / 100"
  by code_simp+

text \<open>
  Claim C9. For any three rows with attorneys A, A, B, billable hours 5, 3, 10, tracked
  hours 5, 3, 15 and billable amounts 1000, 600, 2500, the attorney metrics table has the
  rows A: billable 8, tracked 8, utilization 100, amount 1600, average rate 200 and
  B: billable 10, tracked 15, utilization 66.67, amount 2500, average rate 250; and the
  filter whose only active constraint is a minimum of 9 attorney hours keeps exactly the
  row of B.
\<close>

theorem scenario_results:
  assumes "map User_full_name df = [''A'', ''A'', ''B'']"
    and "map Billable_hours df = [5, 3, 10]"
    and "map Tracked_hours df = [5, 3, 15]"
    and "map Billable_hours_amount df = [1000, 600, 2500]"
  shows "map (\<lambda>(k, m). (k, am_Billable_hours m, am_Tracked_hours m, am_Utilization_Rate m,
                       am_Billable_hours_amount m, am_Average_Rate m)) (attorney_metrics df) =
           [(''A'', 8, 8, Num 100, 1600, Num 200),
            (''B'', 10, 15, Num (6667 / 100), 2500, Num 250)] \<and>
         filter_data df (no_filters\<lparr>f_min_hours := 9\<rparr>) =
           filter (\<lambda>r. User_full_name r = ''B'') df \<and>
         filter_data df (no_filters\<lparr>f_min_hours := 9\<rparr>) = [df ! 2]"
proof -
  from assms(1) obtain r1 r2 r3 where df: "df = [r1, r2, r3]"
    by (auto simp add: map_eq_Cons_conv)
  from assms have fields:
    "User_full_name r1 = ''A''" "User_full_name r2 = ''A''" "User_full_name r3 = ''B''"
    "Billable_hours r1 = 5" "Billable_hours r2 = 3" "Billable_hours r3 = 10"
    "Tracked_hours r1 = 5" "Tracked_hours r2 = 3" "Tracked_hours r3 = 15"
    "Billable_hours_amount r1 = 1000" "Billable_hours_amount r2 = 600"
    "Billable_hours_amount r3 = 2500"
    by (simp_all add: df)
  show ?thesis
    unfolding df
    by (simp add: attorney_metrics_def groupby_def fields sort_A_B attorney_metrics_of_def
          col_sum_def group_sum_scenario Let_def round2_scenario pd_div_def pd_mul_def
          pd_round2_def
          filter_data_stages early_no_filters late_no_filters min_hours_step_def
          group_hours_def client_no_filters)
qed

theorem scenario_results_witness:
  "map User_full_name scenario = [''A'', ''A'', ''B''] \<and>
   map Practice_area scenario = [''Litigation'', ''Litigation'', ''Corporate''] \<and>
   map Billable_hours scenario = [5, 3, 10] \<and>
   map Non_billable_hours scenario = [0, 0, 5] \<and>
   map Tracked_hours scenario = [5, 3, 15] \<and>
   map Billed_hours scenario = [4, 3, 8] \<and>
   map Billable_hours_amount scenario = [1000, 600, 2500] \<and>
   filter_data scenario (no_filters\<lparr>f_min_hours := 9\<rparr>) =
     [entry ''B'' ''Corporate'' [] 10 5 15 8 2500]"
  using scenario_results [of scenario] by (simp add: scenario_def entry_def)

subsection \<open>Ratios of the metrics tables\<close>

text \<open>
  Claim C2, evaluated on the code. The ratios of the client and attorney metrics tables
  are divisions of two columns without a guard: nothing is raised, but a client with no
  tracked time gets NaN as utilization rate, and a client with no billable time gets NaN
  as average and efficiency rate. The top-row metrics of \<^verbatim>\<open>display_key_metrics\<close>
  test the denominator and give 0 on the same rows.
\<close>

theorem table_metrics_unguarded:
  "map (\<lambda>(k, m). (k, cm_Utilization_Rate m, cm_Average_Rate m, cm_Efficiency_Rate m))
     (create_client_metrics_table idle_df) =
     [(''Idle'', NaN, NaN, NaN), (''Internal'', Num 0, NaN, NaN)] \<and>
   map (\<lambda>(k, m). (k, am_Utilization_Rate m, am_Average_Rate m))
     (attorney_metrics [entry ''A'' ''Corporate'' ''Idle'' 0 0 0 0 0]) = [(''A'', NaN, NaN)] \<and>
   key_utilization_rate [entry ''A'' ''Corporate'' ''Idle'' 0 0 0 0 0] = Num 0 \<and>
   key_avg_rate [entry ''A'' ''Corporate'' ''Idle'' 0 0 0 0 0] = Num 0"
  by code_simp

subsection \<open>Order of the stages\<close>

lemma all_independent_conj:
  "(\<lambda>r. early_independent f r \<and> late_independent f r) = all_independent f"
  by (simp add: fun_eq_iff all_independent_def)

lemma filter_data_no_attorney_threshold:
  "\<not> 0 < f_min_hours f \<Longrightarrow>
   filter_data df f =
     min_hours_step Matter_description (f_min_client_hours f) (filter (all_independent f) df)"
  by (simp add: filter_data_stages min_hours_step_def [of User_full_name] all_independent_conj)

lemma filter_data_independent_only:
  "\<not> 0 < f_min_hours f \<Longrightarrow> \<not> 0 < f_min_client_hours f \<Longrightarrow>
   filter_data df f = filter (all_independent f) df"
  by (simp add: filter_data_no_attorney_threshold min_hours_step_def)

lemma filter_late_id:
  assumes "\<forall>r\<in>set df. late_independent f r" and "set d \<subseteq> set df"
  shows "filter (late_independent f) d = d"
  using assms by (auto simp add: filter_id_conv)

lemma filter_data_no_late_removal:
  assumes "\<forall>r\<in>set df. late_independent f r"
  shows "filter_data df f =
     min_hours_step Matter_description (f_min_client_hours f)
       (min_hours_step User_full_name (f_min_hours f) (filter (early_independent f) df))"
proof -
  have "set (min_hours_step User_full_name (f_min_hours f) (filter (early_independent f) df))
          \<subseteq> set df"
    by (auto simp add: min_hours_step_def)
  with assms show ?thesis
    by (simp add: filter_data_stages filter_late_id)
qed

lemma spec_order_no_late_removal:
  assumes "\<forall>r\<in>set df. late_independent f r"
  shows "spec_order_filter df f =
     min_hours_step Matter_description (f_min_client_hours f)
       (min_hours_step User_full_name (f_min_hours f) (filter (early_independent f) df))"
proof -
  have "filter (all_independent f) df = filter (early_independent f) df"
    by (rule filter_cong) (use assms in \<open>auto simp add: all_independent_def\<close>)
  then show ?thesis
    by (simp add: spec_order_filter_def)
qed

text \<open>
  Claim C1, as the code has it. The attorney threshold sits among the attorney filters:
  its groups are formed over the rows narrowed by the time and attorney selections only,
  and the practice, matter, financial and client selections are applied after it. The
  client threshold comes last, over the rows narrowed by every selection and by the
  attorney threshold. When the attorney threshold is inactive, or when the later
  selections remove no row of the frame, the result is the one the specification
  describes.
\<close>

theorem filter_data_order:
  "filter_data df f =
     min_hours_step Matter_description (f_min_client_hours f)
       (filter (late_independent f)
          (min_hours_step User_full_name (f_min_hours f)
             (filter (early_independent f) df))) \<and>
   (\<not> 0 < f_min_hours f \<or> (\<forall>r\<in>set df. late_independent f r) \<longrightarrow>
      filter_data df f = spec_order_filter df f)"
proof (intro conjI impI)
  show "filter_data df f =
     min_hours_step Matter_description (f_min_client_hours f)
       (filter (late_independent f)
          (min_hours_step User_full_name (f_min_hours f)
             (filter (early_independent f) df)))"
    by (rule filter_data_stages)
next
  assume "\<not> 0 < f_min_hours f \<or> (\<forall>r\<in>set df. late_independent f r)"
  then show "filter_data df f = spec_order_filter df f"
  proof
    assume "\<not> 0 < f_min_hours f"
    then show ?thesis
      by (simp add: filter_data_no_attorney_threshold spec_order_filter_def min_hours_step_def)
  next
    assume "\<forall>r\<in>set df. late_independent f r"
    then show ?thesis
      by (simp add: filter_data_no_late_removal spec_order_no_late_removal)
  qed
qed

theorem filter_data_order_witness:
  "\<not> 0 < f_min_hours client_filters \<and>
   filter_data split_df client_filters = spec_order_filter split_df client_filters \<and>
   filter_data split_df client_filters = [entry ''X'' ''Litigation'' ''c1'' 6 0 6 6 600] \<and>
   list_all (late_independent (no_filters\<lparr>f_min_hours := 9\<rparr>)) scenario \<and>
   filter_data scenario (no_filters\<lparr>f_min_hours := 9\<rparr>) =
     spec_order_filter scenario (no_filters\<lparr>f_min_hours := 9\<rparr>)"
proof -
  have l: "list_all (late_independent (no_filters\<lparr>f_min_hours := 9\<rparr>)) scenario"
    by (simp add: late_no_filters list_all_iff)
  have c: "\<not> 0 < f_min_hours client_filters"
    by (simp add: client_filters_def no_filters_def)
  have v: "filter_data split_df client_filters = [entry ''X'' ''Litigation'' ''c1'' 6 0 6 6 600]"
    by code_simp
  have o1: "filter_data split_df client_filters = spec_order_filter split_df client_filters"
    using filter_data_order [of split_df client_filters] c by blast
  have o2: "filter_data scenario (no_filters\<lparr>f_min_hours := 9\<rparr>) =
      spec_order_filter scenario (no_filters\<lparr>f_min_hours := 9\<rparr>)"
  proof -
    have "\<forall>r\<in>set scenario. late_independent (no_filters\<lparr>f_min_hours := 9\<rparr>) r"
      by (simp add: late_no_filters)
    with filter_data_order [of scenario "no_filters\<lparr>f_min_hours := 9\<rparr>"]
    show ?thesis by blast
  qed
  show ?thesis
    by (intro conjI) (fact c o1 v l o2)+
qed

text \<open>
  The claim as stated fails: with six hours in each of two practice areas, a minimum of ten
  attorney hours and one practice area selected, the code keeps the attorney (twelve hours
  when the threshold is evaluated) and returns the selected row, whereas the order of the
  specification selects first and then finds six hours only.
\<close>

theorem spec_order_counterexample:
  "filter_data split_df split_filters = [entry ''X'' ''Litigation'' ''c1'' 6 0 6 6 600] \<and>
   spec_order_filter split_df split_filters = [] \<and>
   filter_data split_df split_filters \<noteq> spec_order_filter split_df split_filters"
  by code_simp

subsection \<open>Applying the filter twice\<close>

lemma filter_independent_idem: "set d \<subseteq> set (filter P df) \<Longrightarrow> filter P d = d"
  by (auto simp add: filter_id_conv)

lemma group_hours_filter:
  assumes "m \<le> group_hours key d k"
  shows "group_hours key (filter (\<lambda>r. m \<le> group_hours key d (key r)) d) k =
         group_hours key d k"
proof -
  have "filter (\<lambda>r. key r = k) (filter (\<lambda>r. m \<le> group_hours key d (key r)) d) =
        filter (\<lambda>r. key r = k) d"
    unfolding filter_filter by (rule filter_cong) (use assms in auto)
  then show ?thesis
    by (simp add: group_hours_def)
qed

lemma min_hours_step_idem:
  "min_hours_step key m (min_hours_step key m d) = min_hours_step key m d"
proof (cases "0 < m")
  case True
  have "filter (\<lambda>r. m \<le> group_hours key (filter (\<lambda>r. m \<le> group_hours key d (key r)) d) (key r))
          (filter (\<lambda>r. m \<le> group_hours key d (key r)) d) =
        filter (\<lambda>r. m \<le> group_hours key d (key r)) d"
    unfolding filter_id_conv by (simp add: group_hours_filter)
  with True show ?thesis
    by (simp add: min_hours_step_def)
next
  case False
  then show ?thesis
    by (simp add: min_hours_step_def)
qed

text \<open>
  Claim C5, as the code has it. Filtering the result again with the same dictionary
  changes nothing when the attorney threshold is inactive (the client threshold may be
  active), and also when the attorney threshold is the last step that removes rows: the
  later selections remove no row of the frame and the client threshold is inactive.
\<close>

theorem filter_data_idempotent:
  "(\<not> 0 < f_min_hours f \<longrightarrow> filter_data (filter_data df f) f = filter_data df f) \<and>
   ((\<forall>r\<in>set df. late_independent f r) \<and> \<not> 0 < f_min_client_hours f \<longrightarrow>
      filter_data (filter_data df f) f = filter_data df f)"
proof (intro conjI impI)
  assume inactive: "\<not> 0 < f_min_hours f"
  let ?x = "filter (all_independent f) df"
  let ?r = "min_hours_step Matter_description (f_min_client_hours f) ?x"
  have r: "filter_data df f = ?r"
    using inactive by (rule filter_data_no_attorney_threshold)
  have "set ?r \<subseteq> set ?x"
    by (auto simp add: min_hours_step_def)
  then have "filter (all_independent f) ?r = ?r"
    by (rule filter_independent_idem)
  then have "filter_data ?r f = min_hours_step Matter_description (f_min_client_hours f) ?r"
    using inactive by (simp add: filter_data_no_attorney_threshold)
  then show "filter_data (filter_data df f) f = filter_data df f"
    by (simp add: r min_hours_step_idem)
next
  assume "(\<forall>r\<in>set df. late_independent f r) \<and> \<not> 0 < f_min_client_hours f"
  then have late: "\<forall>r\<in>set df. late_independent f r" and client: "\<not> 0 < f_min_client_hours f"
    by simp_all
  let ?x = "filter (early_independent f) df"
  let ?r = "min_hours_step User_full_name (f_min_hours f) ?x"
  have r: "filter_data df f = ?r"
    using client by (simp add: filter_data_no_late_removal [OF late] min_hours_step_def)
  have sub: "set ?r \<subseteq> set ?x"
    by (auto simp add: min_hours_step_def)
  then have "\<forall>r\<in>set ?r. late_independent f r"
    using late by auto
  then have "filter_data ?r f =
      min_hours_step User_full_name (f_min_hours f) (filter (early_independent f) ?r)"
    using client by (simp add: filter_data_no_late_removal min_hours_step_def [of Matter_description])
  also have "filter (early_independent f) ?r = ?r"
    using sub by (rule filter_independent_idem)
  finally show "filter_data (filter_data df f) f = filter_data df f"
    by (simp add: r min_hours_step_idem)
qed

theorem filter_data_idempotent_witness:
  "\<not> 0 < f_min_hours client_filters \<and> 0 < f_min_client_hours client_filters \<and>
   filter_data (filter_data split_df client_filters) client_filters =
     [entry ''X'' ''Litigation'' ''c1'' 6 0 6 6 600] \<and>
   list_all (late_independent (no_filters\<lparr>f_min_hours := 9\<rparr>)) scenario \<and>
   \<not> 0 < f_min_client_hours (no_filters\<lparr>f_min_hours := 9\<rparr>) \<and>
   filter_data (filter_data scenario (no_filters\<lparr>f_min_hours := 9\<rparr>)) (no_filters\<lparr>f_min_hours := 9\<rparr>) =
     [entry ''B'' ''Corporate'' [] 10 5 15 8 2500]"
proof -
  have l: "list_all (late_independent (no_filters\<lparr>f_min_hours := 9\<rparr>)) scenario"
    by (simp add: late_no_filters list_all_iff)
  have c: "\<not> 0 < f_min_client_hours (no_filters\<lparr>f_min_hours := 9\<rparr>)"
    "\<not> 0 < f_min_hours client_filters" "0 < f_min_client_hours client_filters"
    by (simp_all add: no_filters_def client_filters_def)
  have v: "filter_data split_df client_filters = [entry ''X'' ''Litigation'' ''c1'' 6 0 6 6 600]"
    "filter_data scenario (no_filters\<lparr>f_min_hours := 9\<rparr>) = [entry ''B'' ''Corporate'' [] 10 5 15 8 2500]"
    by code_simp+
  show ?thesis
    using filter_data_idempotent [of client_filters split_df]
      filter_data_idempotent [of "no_filters\<lparr>f_min_hours := 9\<rparr>" scenario] l c v
    by (simp add: list_all_iff)
qed

text \<open>
  With an active attorney threshold the claim fails: the first pass keeps the attorney on
  twelve hours and then drops one of the two rows; the second pass finds six hours and
  drops the attorney.
\<close>

theorem idempotence_counterexample:
  "filter_data split_df split_filters = [entry ''X'' ''Litigation'' ''c1'' 6 0 6 6 600] \<and>
   filter_data (filter_data split_df split_filters) split_filters = [] \<and>
   filter_data (filter_data split_df split_filters) split_filters \<noteq>
     filter_data split_df split_filters"
  by code_simp

subsection \<open>Independent constraints commute\<close>

text \<open>
  Claim C7. For two dictionaries that hold independent constraints only (both thresholds
  inactive), filtering by the first and then by the second gives the same rows as
  filtering by the second and then by the first.
\<close>

theorem independent_commute:
  assumes "\<not> 0 < f_min_hours a" and "\<not> 0 < f_min_client_hours a"
    and "\<not> 0 < f_min_hours b" and "\<not> 0 < f_min_client_hours b"
  shows "filter_data (filter_data df a) b = filter_data (filter_data df b) a"
  using assms by (simp add: filter_data_independent_only conj_commute)

theorem independent_commute_witness:
  "\<not> 0 < f_min_hours practice_only \<and> \<not> 0 < f_min_client_hours practice_only \<and>
   \<not> 0 < f_min_hours amount_only \<and> \<not> 0 < f_min_client_hours amount_only \<and>
   filter_data (filter_data scenario practice_only) amount_only =
     [entry ''A'' ''Litigation'' [] 5 0 5 4 1000] \<and>
   filter_data (filter_data scenario amount_only) practice_only =
     [entry ''A'' ''Litigation'' [] 5 0 5 4 1000]"
  using independent_commute [of practice_only amount_only scenario]
  apply (simp add: practice_only_def amount_only_def no_filters_def)
  apply code_simp
  done

subsection \<open>Monotonic narrowing\<close>

lemma subseq_subset: "subseq xs ys \<Longrightarrow> set xs \<subseteq> set ys"
  by (induction rule: list_emb.induct) auto

lemma sum_list_subseq_le:
  fixes g :: "'a \<Rightarrow> rat"
  assumes "subseq xs ys" and "\<forall>y\<in>set ys. 0 \<le> g y"
  shows "sum_list (map g xs) \<le> sum_list (map g ys)"
  using assms
proof (induction rule: list_emb.induct)
  case (list_emb_Nil ys)
  then show ?case by (auto intro!: sum_list_nonneg)
next
  case (list_emb_Cons xs ys y)
  then show ?case by (simp add: add_increasing)
next
  case (list_emb_Cons2 x y xs ys)
  then show ?case by simp
qed

lemma col_sum_exact:
  assumes "exact_hours k df" and "subseq xs df"
  shows "col_sum Billable_hours xs = sum_list (map Billable_hours xs)"
proof -
  have grid: "\<forall>v\<in>set (map Billable_hours xs). on_grid k v"
    using assms subseq_subset [of xs df] by (auto simp add: exact_hours_def list_all_iff)
  have "sum_list (map (\<lambda>r. \<bar>Billable_hours r\<bar>) xs) \<le> sum_list (map (\<lambda>r. \<bar>Billable_hours r\<bar>) df)"
    using assms(2) by (rule sum_list_subseq_le) simp
  then have "sum_list (map (\<lambda>r. \<bar>Billable_hours r\<bar>) xs) * 2 ^ k \<le>
             sum_list (map (\<lambda>r. \<bar>Billable_hours r\<bar>) df) * 2 ^ k"
    by (rule mult_right_mono) simp
  also have "\<dots> < 2 ^ 53"
    using assms(1) by (simp add: exact_hours_def)
  finally have "sum_list (map abs (map Billable_hours xs)) * 2 ^ k < 2 ^ 53"
    by (simp add: comp_def)
  with grid show ?thesis
    unfolding col_sum_def by (rule group_sum_exact)
qed

lemma group_hours_exact:
  assumes "exact_hours k df" and "subseq xs df"
  shows "group_hours key xs g = sum_list (map Billable_hours (filter (\<lambda>r. key r = g) xs))"
proof -
  have "subseq (filter (\<lambda>r. key r = g) xs) df"
    using subseq_filter_left assms(2) by (rule subseq_order.trans)
  with assms(1) show ?thesis
    unfolding group_hours_def by (rule col_sum_exact)
qed

lemma group_hours_mono:
  assumes "exact_hours k df" and "\<forall>r\<in>set df. 0 \<le> Billable_hours r"
    and "subseq xs ys" and "subseq ys df"
  shows "group_hours key xs g \<le> group_hours key ys g"
proof -
  have xs: "subseq xs df"
    using assms(3,4) by (rule subseq_order.trans)
  have "\<forall>r\<in>set (filter (\<lambda>r. key r = g) ys). 0 \<le> Billable_hours r"
    using assms(2) subseq_subset [OF assms(4)] by auto
  with subseq_filter [OF assms(3)]
  have "sum_list (map Billable_hours (filter (\<lambda>r. key r = g) xs)) \<le>
        sum_list (map Billable_hours (filter (\<lambda>r. key r = g) ys))"
    by (rule sum_list_subseq_le)
  then show ?thesis
    by (simp add: group_hours_exact [OF assms(1) xs] group_hours_exact [OF assms(1,4)])
qed

lemma filter_mono_subseq:
  assumes "subseq xs ys" and "\<And>r. r \<in> set xs \<Longrightarrow> P r \<Longrightarrow> Q r"
  shows "subseq (filter P xs) (filter Q ys)"
proof -
  have "filter P xs = filter P (filter Q xs)"
    unfolding filter_filter by (rule filter_cong) (use assms(2) in auto)
  then have "subseq (filter P xs) (filter Q xs)"
    by (metis subseq_filter_left)
  moreover have "subseq (filter Q xs) (filter Q ys)"
    using assms(1) by (rule subseq_filter)
  ultimately show ?thesis
    by (rule subseq_order.trans)
qed

lemma min_hours_step_mono:
  assumes "exact_hours k df" and "\<forall>r\<in>set df. 0 \<le> Billable_hours r"
    and "subseq xs ys" and "subseq ys df"
    and "0 < m \<Longrightarrow> m \<le> m'"
  shows "subseq (min_hours_step key m' xs) (min_hours_step key m ys)"
proof (cases "0 < m")
  case False
  have "subseq (min_hours_step key m' xs) xs"
    by (rule min_hours_step_subseq)
  then have "subseq (min_hours_step key m' xs) ys"
    using assms(3) by (rule subseq_order.trans)
  then show ?thesis
    using False by (simp add: min_hours_step_def)
next
  case True
  then have m': "m \<le> m'" "0 < m'"
    using assms(5) by auto
  have "subseq (filter (\<lambda>r. m' \<le> group_hours key xs (key r)) xs)
               (filter (\<lambda>r. m \<le> group_hours key ys (key r)) ys)"
  proof (rule filter_mono_subseq [OF assms(3)])
    fix r
    assume "m' \<le> group_hours key xs (key r)"
    moreover have "group_hours key xs (key r) \<le> group_hours key ys (key r)"
      using assms(1-4) by (rule group_hours_mono)
    ultimately show "m \<le> group_hours key ys (key r)"
      using m'(1) by linarith
  qed
  then show ?thesis
    using True m'(2) by (simp add: min_hours_step_def)
qed

text \<open>With exact sums and no negative hours, tightening any stage narrows the result.\<close>

lemma filter_data_mono_exact:
  assumes exact: "exact_hours k df" and nonneg: "\<forall>r\<in>set df. 0 \<le> Billable_hours r"
    and early: "\<And>r. early_independent f' r \<Longrightarrow> early_independent f r"
    and late: "\<And>r. late_independent f' r \<Longrightarrow> late_independent f r"
    and att: "0 < f_min_hours f \<Longrightarrow> f_min_hours f \<le> f_min_hours f'"
    and cli: "0 < f_min_client_hours f \<Longrightarrow> f_min_client_hours f \<le> f_min_client_hours f'"
  shows "subseq (filter_data df f') (filter_data df f)"
proof -
  let ?a' = "filter (early_independent f') df" and ?a = "filter (early_independent f) df"
  let ?b' = "min_hours_step User_full_name (f_min_hours f') ?a'"
  let ?b = "min_hours_step User_full_name (f_min_hours f) ?a"
  let ?c' = "filter (late_independent f') ?b'" and ?c = "filter (late_independent f) ?b"
  have a: "subseq ?a' ?a"
    by (rule filter_mono_subseq) (use early in auto)
  have sa: "subseq ?a df"
    by simp
  have b: "subseq ?b' ?b"
    using exact nonneg a sa att by (rule min_hours_step_mono)
  have "subseq ?b ?a"
    by (rule min_hours_step_subseq)
  then have sb: "subseq ?b df"
    using sa by (rule subseq_order.trans)
  have c: "subseq ?c' ?c"
    using b by (rule filter_mono_subseq) (use late in auto)
  have sc: "subseq ?c df"
    using subseq_filter_left sb by (rule subseq_order.trans)
  have "subseq (min_hours_step Matter_description (f_min_client_hours f') ?c')
               (min_hours_step Matter_description (f_min_client_hours f) ?c)"
    using exact nonneg c sc cli by (rule min_hours_step_mono)
  then show ?thesis
    by (simp add: filter_data_stages)
qed

text \<open>Whatever the sums, a constraint that is evaluated after every active threshold of the
  looser dictionary narrows the result.\<close>

lemma filter_data_mono_after:
  assumes early: "\<And>r. early_independent f' r \<Longrightarrow> early_independent f r"
    and late: "\<And>r. late_independent f' r \<Longrightarrow> late_independent f r"
    and cli: "\<not> 0 < f_min_client_hours f"
    and att: "0 < f_min_hours f \<Longrightarrow>
              early_independent f' = early_independent f \<and> f_min_hours f' = f_min_hours f"
  shows "subseq (filter_data df f') (filter_data df f)"
proof -
  let ?a' = "filter (early_independent f') df" and ?a = "filter (early_independent f) df"
  let ?b' = "min_hours_step User_full_name (f_min_hours f') ?a'"
  let ?b = "min_hours_step User_full_name (f_min_hours f) ?a"
  let ?c' = "filter (late_independent f') ?b'" and ?c = "filter (late_independent f) ?b"
  have b: "subseq ?b' ?b"
  proof (cases "0 < f_min_hours f")
    case True
    with att show ?thesis by simp
  next
    case False
    have "subseq ?b' ?a'"
      by (rule min_hours_step_subseq)
    also have "subseq ?a' ?a"
      by (rule filter_mono_subseq) (use early in auto)
    finally show ?thesis
      using False by (simp add: min_hours_step_def)
  qed
  have "subseq (min_hours_step Matter_description (f_min_client_hours f') ?c') ?c'"
    by (rule min_hours_step_subseq)
  also have "subseq ?c' ?c"
    using b by (rule filter_mono_subseq) (use late in auto)
  finally show ?thesis
    using cli by (simp add: filter_data_stages min_hours_step_def [of Matter_description])
qed

lemma adds_constraint_narrows:
  assumes "adds_constraint f f'"
  shows "(\<forall>r. early_independent f' r \<longrightarrow> early_independent f r) \<and>
         (\<forall>r. late_independent f' r \<longrightarrow> late_independent f r) \<and>
         (0 < f_min_hours f \<longrightarrow> f_min_hours f' = f_min_hours f) \<and>
         (0 < f_min_client_hours f \<longrightarrow> f_min_client_hours f' = f_min_client_hours f)"
  using assms
  by cases
    (simp_all add: early_independent_def late_independent_def split del: if_split cong: if_cong)

lemma same_early_independent:
  "same_early f f' \<Longrightarrow> early_independent f' = early_independent f"
  by (simp add: same_early_def early_independent_def fun_eq_iff cong: if_cong)

text \<open>
  Claim C6, as the code has it. The filtered frame is a subsequence, hence a subset, of the
  input. When a dictionary is obtained from another by adding one constraint, its result
  is a subsequence of the result of the looser one in two cases: whatever the hours, when
  the client threshold of the looser dictionary is inactive and its attorney threshold is
  inactive or the time and attorney selections are unchanged (no active threshold is then
  evaluated after the added constraint); and for any added constraint, when the billable
  hours are non-negative and add up exactly.
\<close>

theorem monotonic_narrowing:
  "subseq (filter_data df f) df \<and>
   (adds_constraint f f' \<longrightarrow> \<not> 0 < f_min_client_hours f \<longrightarrow>
      \<not> 0 < f_min_hours f \<or> same_early f f' \<longrightarrow>
      subseq (filter_data df f') (filter_data df f)) \<and>
   (adds_constraint f f' \<longrightarrow> exact_hours k df \<longrightarrow> (\<forall>r\<in>set df. 0 \<le> Billable_hours r) \<longrightarrow>
      subseq (filter_data df f') (filter_data df f))"
proof (intro conjI impI)
  show "subseq (filter_data df f) df"
    by (rule filter_data_narrows)
next
  assume add: "adds_constraint f f'" and cli: "\<not> 0 < f_min_client_hours f"
    and att: "\<not> 0 < f_min_hours f \<or> same_early f f'"
  note n = adds_constraint_narrows [OF add]
  show "subseq (filter_data df f') (filter_data df f)"
  proof (rule filter_data_mono_after [OF _ _ cli])
    assume "0 < f_min_hours f"
    with att n show "early_independent f' = early_independent f \<and> f_min_hours f' = f_min_hours f"
      by (simp add: same_early_independent)
  qed (use n in auto)
next
  assume add: "adds_constraint f f'" and exact: "exact_hours k df"
    and nonneg: "\<forall>r\<in>set df. 0 \<le> Billable_hours r"
  note n = adds_constraint_narrows [OF add]
  show "subseq (filter_data df f') (filter_data df f)"
    by (rule filter_data_mono_exact [OF exact nonneg]) (use n in auto)
qed

theorem monotonic_narrowing_witness:
  "adds_constraint no_filters (no_filters\<lparr>f_min_hours := 9\<rparr>) \<and>
   \<not> 0 < f_min_client_hours no_filters \<and> \<not> 0 < f_min_hours no_filters \<and>
   filter_data scenario no_filters = scenario \<and>
   filter_data scenario (no_filters\<lparr>f_min_hours := 9\<rparr>) =
     [entry ''B'' ''Corporate'' [] 10 5 15 8 2500] \<and>
   subseq (filter_data scenario (no_filters\<lparr>f_min_hours := 9\<rparr>)) (filter_data scenario no_filters) \<and>
   adds_constraint (no_filters\<lparr>f_min_client_hours := 5\<rparr>)
     (no_filters\<lparr>f_min_client_hours := 5, f_attorneys := [''A'']\<rparr>) \<and>
   adds_constraint (no_filters\<lparr>f_min_hours := 9\<rparr>)
     (no_filters\<lparr>f_min_hours := 9, f_practice_areas := [''Corporate'']\<rparr>) \<and>
   same_early (no_filters\<lparr>f_min_hours := 9\<rparr>)
     (no_filters\<lparr>f_min_hours := 9, f_practice_areas := [''Corporate'']\<rparr>) \<and>
   subseq (filter_data scenario (no_filters\<lparr>f_min_hours := 9, f_practice_areas := [''Corporate'']\<rparr>))
     (filter_data scenario (no_filters\<lparr>f_min_hours := 9\<rparr>)) \<and>
   exact_hours 0 scenario \<and> list_all (\<lambda>r. 0 \<le> Billable_hours r) scenario \<and>
   subseq (filter_data scenario (no_filters\<lparr>f_min_client_hours := 5, f_attorneys := [''A'']\<rparr>))
     (filter_data scenario (no_filters\<lparr>f_min_client_hours := 5\<rparr>))"
proof -
  have a: "adds_constraint no_filters (no_filters\<lparr>f_min_hours := 9\<rparr>)"
    by (rule add_min_hours) (simp add: no_filters_def)
  have i: "\<not> 0 < f_min_client_hours no_filters" "\<not> 0 < f_min_hours no_filters"
    by (simp_all add: no_filters_def)
  have s: "subseq (filter_data scenario (no_filters\<lparr>f_min_hours := 9\<rparr>))
                  (filter_data scenario no_filters)"
    using monotonic_narrowing [of scenario no_filters "no_filters\<lparr>f_min_hours := 9\<rparr>"] a i
    by blast
  have v: "filter_data scenario no_filters = scenario"
      "filter_data scenario (no_filters\<lparr>f_min_hours := 9\<rparr>) =
         [entry ''B'' ''Corporate'' [] 10 5 15 8 2500]"
    by code_simp+
  have b: "adds_constraint (no_filters\<lparr>f_min_hours := 9\<rparr>)
     (no_filters\<lparr>f_min_hours := 9, f_practice_areas := [''Corporate'']\<rparr>)"
    using add_practice_areas [of "no_filters\<lparr>f_min_hours := 9\<rparr>" "[''Corporate'']"]
    by (simp add: no_filters_def)
  have se: "same_early (no_filters\<lparr>f_min_hours := 9\<rparr>)
     (no_filters\<lparr>f_min_hours := 9, f_practice_areas := [''Corporate'']\<rparr>)"
    by (simp add: same_early_def)
  have ci: "\<not> 0 < f_min_client_hours (no_filters\<lparr>f_min_hours := 9\<rparr>)"
    by (simp add: no_filters_def)
  have sb: "subseq (filter_data scenario (no_filters\<lparr>f_min_hours := 9, f_practice_areas := [''Corporate'']\<rparr>))
     (filter_data scenario (no_filters\<lparr>f_min_hours := 9\<rparr>))"
    using monotonic_narrowing [of scenario "no_filters\<lparr>f_min_hours := 9\<rparr>"
        "no_filters\<lparr>f_min_hours := 9, f_practice_areas := [''Corporate'']\<rparr>"] b se ci
    by blast
  have a': "adds_constraint (no_filters\<lparr>f_min_client_hours := 5\<rparr>)
     (no_filters\<lparr>f_min_client_hours := 5, f_attorneys := [''A'']\<rparr>)"
    using add_attorneys [of "no_filters\<lparr>f_min_client_hours := 5\<rparr>" "[''A'']"]
    by (simp add: no_filters_def)
  have e: "exact_hours 0 scenario"
    by (simp add: exact_hours_def on_grid_def scenario_def entry_def)
  have n: "list_all (\<lambda>r. 0 \<le> Billable_hours r) scenario"
    by (simp add: scenario_def entry_def)
  have s': "subseq (filter_data scenario (no_filters\<lparr>f_min_client_hours := 5, f_attorneys := [''A'']\<rparr>))
     (filter_data scenario (no_filters\<lparr>f_min_client_hours := 5\<rparr>))"
    using monotonic_narrowing [of scenario "no_filters\<lparr>f_min_client_hours := 5\<rparr>"
        "no_filters\<lparr>f_min_client_hours := 5, f_attorneys := [''A'']\<rparr>" 0] a' e n
    by (simp only: list_all_iff)
  show ?thesis
    by (intro conjI; fact a i s v b se sb a' e n s')
qed

text \<open>
  The claim as stated fails. The code does not check the sign of the hours: with a client
  on six hours and on minus three hours in two practice areas and a minimum of five client
  hours, nothing is kept; selecting one practice area as well keeps the six-hour row.
\<close>

theorem monotonic_narrowing_counterexample:
  "adds_constraint (no_filters\<lparr>f_min_client_hours := 5\<rparr>)
     (no_filters\<lparr>f_min_client_hours := 5, f_practice_areas := [''Litigation'']\<rparr>) \<and>
   filter_data negative_df (no_filters\<lparr>f_min_client_hours := 5\<rparr>) = [] \<and>
   filter_data negative_df (no_filters\<lparr>f_min_client_hours := 5, f_practice_areas := [''Litigation'']\<rparr>) =
     [entry ''X'' ''Litigation'' ''c1'' 6 0 6 6 600] \<and>
   \<not> subseq
     (filter_data negative_df (no_filters\<lparr>f_min_client_hours := 5, f_practice_areas := [''Litigation'']\<rparr>))
     (filter_data negative_df (no_filters\<lparr>f_min_client_hours := 5\<rparr>))"
proof -
  have a: "adds_constraint (no_filters\<lparr>f_min_client_hours := 5\<rparr>)
     (no_filters\<lparr>f_min_client_hours := 5, f_practice_areas := [''Litigation'']\<rparr>)"
    using add_practice_areas [of "no_filters\<lparr>f_min_client_hours := 5\<rparr>" "[''Litigation'']"]
    by (simp add: no_filters_def)
  have v: "filter_data negative_df (no_filters\<lparr>f_min_client_hours := 5\<rparr>) = []"
    "filter_data negative_df (no_filters\<lparr>f_min_client_hours := 5, f_practice_areas := [''Litigation'']\<rparr>) =
     [entry ''X'' ''Litigation'' ''c1'' 6 0 6 6 600]"
    by code_simp+
  show ?thesis
    using a by (simp add: v)
qed

text \<open>
  Rounding does the same without any negative hours. A client has 0.1 and 0.3 hours in one
  practice area and a row without hours in another; against a minimum of 0.4 client hours
  the compensated sum of the three rows falls one unit in the last place short of 0.4, and
  the sum of the two selected rows does not.
\<close>

lemma rounding_hours_grow:
  "list_all (\<lambda>r. 0 \<le> Billable_hours r) rounding_df \<and>
   filter_data rounding_df (no_filters\<lparr>f_min_client_hours := fl64 (2 / 5)\<rparr>) = [] \<and>
   filter_data rounding_df
     (no_filters\<lparr>f_min_client_hours := fl64 (2 / 5), f_practice_areas := [''Litigation'']\<rparr>) =
     [entry ''A'' ''Litigation'' ''c1'' (fl64 (1 / 10)) 0 (fl64 (1 / 10)) 0 0,
      entry ''A'' ''Litigation'' ''c1'' (fl64 (3 / 10)) 0 (fl64 (3 / 10)) 0 0]"
  by code_simp

subsection \<open>Hierarchical consistency of the aggregations\<close>

lemma sum_list_indicator:
  fixes c :: rat
  assumes "distinct ks"
  shows "sum_list (map (\<lambda>k. if y = k then c else 0) ks) = (if y \<in> set ks then c else 0)"
  using assms by (induction ks) auto

lemma sum_groups:
  fixes g :: "'a \<Rightarrow> rat"
  assumes "distinct ks"
  shows "sum_list (map (\<lambda>k. sum_list (map g (filter (\<lambda>r. key r = k) d))) ks) =
         sum_list (map g (filter (\<lambda>r. key r \<in> set ks) d))"
proof (induction d)
  case Nil
  then show ?case by simp
next
  case (Cons x d)
  have "sum_list (map (\<lambda>k. sum_list (map g (filter (\<lambda>r. key r = k) (x # d)))) ks) =
        sum_list (map (\<lambda>k. (if key x = k then g x else 0) +
                             sum_list (map g (filter (\<lambda>r. key r = k) d))) ks)"
    by (rule arg_cong [where f = sum_list], rule map_cong) auto
  also have "\<dots> = sum_list (map (\<lambda>k. if key x = k then g x else 0) ks) +
                   sum_list (map (\<lambda>k. sum_list (map g (filter (\<lambda>r. key r = k) d))) ks)"
    by (rule sum_list_addf)
  also have "\<dots> = (if key x \<in> set ks then g x else 0) +
                   sum_list (map g (filter (\<lambda>r. key r \<in> set ks) d))"
    using assms by (simp add: sum_list_indicator Cons.IH)
  also have "\<dots> = sum_list (map g (filter (\<lambda>r. key r \<in> set ks) (x # d)))"
    by simp
  finally show ?case .
qed

lemma filter_groupby_sum:
  "map snd (filter (\<lambda>(k, h). P k) (groupby_sum key col d)) =
   map (\<lambda>k. col_sum col (filter (\<lambda>r. key r = k) d)) (filter P (sort (remdups (map key d))))"
proof -
  have "\<And>ks. map snd (filter (\<lambda>(k, h). P k) (map (\<lambda>k. (k, col_sum col (filter (\<lambda>r. key r = k) d))) ks)) =
        map (\<lambda>k. col_sum col (filter (\<lambda>r. key r = k) d)) (filter P ks)"
    subgoal for ks by (induction ks) auto
    done
  then show ?thesis
    by (simp add: groupby_sum_keys)
qed

text \<open>The entries of the two-level table for one practice area, as exact sums.\<close>

lemma two_level_entries:
  assumes "exact_hours k df"
  shows "map snd (filter (\<lambda>((c, p), h). p = a) (client_practice df)) =
         map (\<lambda>g. sum_list (map Billable_hours
                  (filter (\<lambda>r. (Matter_description r, Practice_area r) = g) df)))
           (filter (\<lambda>g. snd g = a)
              (sort (remdups (map (\<lambda>r. (Matter_description r, Practice_area r)) df))))"
proof -
  let ?key = "\<lambda>r. (Matter_description r, Practice_area r)"
  have "filter (\<lambda>((c, p), h). p = a) (client_practice df) =
        filter (\<lambda>(g, h). snd g = a) (client_practice df)"
    by (rule filter_cong) auto
  then have "map snd (filter (\<lambda>((c, p), h). p = a) (client_practice df)) =
        map (\<lambda>g. col_sum Billable_hours (filter (\<lambda>r. ?key r = g) df))
          (filter (\<lambda>g. snd g = a) (sort (remdups (map ?key df))))"
    unfolding client_practice_def by (simp only: filter_groupby_sum)
  also have "\<dots> = map (\<lambda>g. sum_list (map Billable_hours (filter (\<lambda>r. ?key r = g) df)))
          (filter (\<lambda>g. snd g = a) (sort (remdups (map ?key df))))"
    by (rule map_cong) (simp_all add: col_sum_exact [OF assms])
  finally show ?thesis .
qed

lemma two_level_sum:
  assumes "exact_hours k df"
  shows "sum_list (map snd (filter (\<lambda>((c, p), h). p = a) (client_practice df))) =
         col_sum Billable_hours (filter (\<lambda>r. Practice_area r = a) df)"
    and "group_sum (map snd (filter (\<lambda>((c, p), h). p = a) (client_practice df))) =
         col_sum Billable_hours (filter (\<lambda>r. Practice_area r = a) df)"
proof -
  let ?key = "\<lambda>r. (Matter_description r, Practice_area r)"
  let ?ks = "filter (\<lambda>g. snd g = a) (sort (remdups (map ?key df)))"
  let ?cs = "map (\<lambda>g. sum_list (map Billable_hours (filter (\<lambda>r. ?key r = g) df))) ?ks"
  have cs: "map snd (filter (\<lambda>((c, p), h). p = a) (client_practice df)) = ?cs"
    using assms by (rule two_level_entries)
  have rows: "filter (\<lambda>r. ?key r \<in> set ?ks) df = filter (\<lambda>r. Practice_area r = a) df"
    by (rule filter_cong) auto
  have "sum_list ?cs = sum_list (map Billable_hours (filter (\<lambda>r. ?key r \<in> set ?ks) df))"
    by (rule sum_groups) simp
  also have "\<dots> = sum_list (map Billable_hours (filter (\<lambda>r. Practice_area r = a) df))"
    by (simp only: rows)
  also have "\<dots> = col_sum Billable_hours (filter (\<lambda>r. Practice_area r = a) df)"
    by (simp add: col_sum_exact [OF assms])
  finally show total: "sum_list (map snd (filter (\<lambda>((c, p), h). p = a) (client_practice df))) =
      col_sum Billable_hours (filter (\<lambda>r. Practice_area r = a) df)"
    by (simp only: cs)
  have grid: "\<forall>c\<in>set ?cs. on_grid k c"
  proof
    fix c assume "c \<in> set ?cs"
    then obtain g where "c = sum_list (map Billable_hours (filter (\<lambda>r. ?key r = g) df))"
      by auto
    moreover have "\<forall>v\<in>set (map Billable_hours (filter (\<lambda>r. ?key r = g) df)). on_grid k v"
      using assms by (auto simp add: exact_hours_def list_all_iff)
    ultimately show "on_grid k c"
      by (simp only: on_grid_sum_list)
  qed
  have "sum_list (map abs ?cs) \<le>
        sum_list (map (\<lambda>g. sum_list (map (\<lambda>r. \<bar>Billable_hours r\<bar>) (filter (\<lambda>r. ?key r = g) df))) ?ks)"
    unfolding map_map comp_def by (rule sum_list_mono) (rule sum_list_abs [of "map _ _", unfolded map_map comp_def])
  also have "\<dots> = sum_list (map (\<lambda>r. \<bar>Billable_hours r\<bar>) (filter (\<lambda>r. ?key r \<in> set ?ks) df))"
    by (rule sum_groups) simp
  also have "\<dots> \<le> sum_list (map (\<lambda>r. \<bar>Billable_hours r\<bar>) df)"
    by (rule sum_list_subseq_le) simp_all
  finally have "sum_list (map abs ?cs) * 2 ^ k \<le> sum_list (map (\<lambda>r. \<bar>Billable_hours r\<bar>) df) * 2 ^ k"
    by (rule mult_right_mono) simp
  also have "\<dots> < 2 ^ 53"
    using assms by (simp add: exact_hours_def)
  finally have "group_sum ?cs = sum_list ?cs"
    using grid by (intro group_sum_exact)
  then show "group_sum (map snd (filter (\<lambda>((c, p), h). p = a) (client_practice df))) =
      col_sum Billable_hours (filter (\<lambda>r. Practice_area r = a) df)"
    using total by (simp only: cs)
qed

lemma practice_data_row:
  "(a, h, amt) \<in> set (practice_data df) \<longleftrightarrow>
   a \<in> Practice_area ` set df \<and>
   h = col_sum Billable_hours (filter (\<lambda>r. Practice_area r = a) df) \<and>
   amt = col_sum Billable_hours_amount (filter (\<lambda>r. Practice_area r = a) df)"
  by (auto simp add: practice_data_def groupby_def)

text \<open>
  Claim C8, as the code has it. Every practice area of the frame has a row in the
  practice-area aggregation. When the billable hours add up exactly, the billable hours of
  that row equal the sum of the billable hours of the (client, practice area) groups of
  that area, whether these are added exactly or in float64 like a group.
\<close>

theorem hierarchical_consistency:
  "(a \<in> Practice_area ` set df \<longrightarrow> (\<exists>h amt. (a, h, amt) \<in> set (practice_data df))) \<and>
   (exact_hours k df \<longrightarrow> (a, h, amt) \<in> set (practice_data df) \<longrightarrow>
      sum_list (map snd (filter (\<lambda>((c, p), h). p = a) (client_practice df))) = h \<and>
      group_sum (map snd (filter (\<lambda>((c, p), h). p = a) (client_practice df))) = h)"
  by (simp add: practice_data_row two_level_sum)

theorem hierarchical_consistency_witness:
  "exact_hours 2 hier_df \<and>
   (''Litigation'', 19 / 2, 2000) \<in> set (practice_data hier_df) \<and>
   client_practice hier_df =
     [((''c1'', ''Corporate''), 10), ((''c1'', ''Litigation''), 7), ((''c2'', ''Litigation''), 5 / 2)] \<and>
   sum_list (map snd (filter (\<lambda>((c, p), h). p = ''Litigation'') (client_practice hier_df))) = 19 / 2 \<and>
   group_sum (map snd (filter (\<lambda>((c, p), h). p = ''Litigation'') (client_practice hier_df))) = 19 / 2"
proof -
  have e: "exact_hours 2 hier_df"
    by (simp add: exact_hours_def on_grid_def hier_df_def entry_def)
  have m: "(''Litigation'', 19 / 2, 2000) \<in> set (practice_data hier_df)"
    by code_simp
  have c: "client_practice hier_df =
     [((''c1'', ''Corporate''), 10), ((''c1'', ''Litigation''), 7), ((''c2'', ''Litigation''), 5 / 2)]"
    by code_simp
  have s: "sum_list (map snd (filter (\<lambda>((c, p), h). p = ''Litigation'') (client_practice hier_df))) = 19 / 2 \<and>
   group_sum (map snd (filter (\<lambda>((c, p), h). p = ''Litigation'') (client_practice hier_df))) = 19 / 2"
    using hierarchical_consistency [of "''Litigation''" hier_df 2 "19 / 2" 2000] e m by blast
  show ?thesis
    using e m c s by blast
qed

text \<open>
  The claim as stated fails on hours that are not binary fractions. With 0.1 and 0.2 hours
  for one client and 0.3 hours for another, the practice-area row is 0.6, the client groups
  are 0.30000000000000004 and 0.3, and their sum is 0.6000000000000001 in float64 (and
  differs from the row in exact arithmetic as well).
\<close>

theorem hierarchical_consistency_counterexample:
  "practice_data tenths_df = [(''Litigation'', 5404319552844595 / 9007199254740992, 0)] \<and>
   client_practice tenths_df =
     [((''c1'', ''Litigation''), 1351079888211149 / 4503599627370496),
      ((''c2'', ''Litigation''), 5404319552844595 / 18014398509481984)] \<and>
   sum_list (map snd (filter (\<lambda>((c, p), h). p = ''Litigation'') (client_practice tenths_df))) =
     10808639105689191 / 18014398509481984 \<and>
   group_sum (map snd (filter (\<lambda>((c, p), h). p = ''Litigation'') (client_practice tenths_df))) =
     1351079888211149 / 2251799813685248 \<and>
   (10808639105689191 / 18014398509481984 :: rat) \<noteq> 5404319552844595 / 9007199254740992 \<and>
   (1351079888211149 / 2251799813685248 :: rat) \<noteq> 5404319552844595 / 9007199254740992"
proof -
  have p: "practice_data tenths_df = [(''Litigation'', 5404319552844595 / 9007199254740992, 0)]"
    by code_simp
  have c: "client_practice tenths_df =
     [((''c1'', ''Litigation''), 1351079888211149 / 4503599627370496),
      ((''c2'', ''Litigation''), 5404319552844595 / 18014398509481984)]"
    by code_simp
  have g: "group_sum [1351079888211149 / 4503599627370496, 5404319552844595 / 18014398509481984] =
      1351079888211149 / 2251799813685248"
    by code_simp
  show ?thesis
    by (simp add: p c g)
qed

end
